theory Spec2Isabelle
  imports Complex_Main "HOL-Library.Word" "HOL-Library.Char_ord" "HOL-Library.List_Lexorder"
begin

unbundle bit_operations_syntax

text \<open>
  The group-key engine of NullTrace: the group channel (\<^verbatim>\<open>group.js\<close>), the membership
  layer with its rekey (\<^verbatim>\<open>mls.js\<close>), the pairwise handshake (\<^verbatim>\<open>handshake.js\<close>) and the
  access capsule (\<^verbatim>\<open>nacp.js\<close>). Each method is a function from the state before the call
  to its result and the state after it; an exception is a value of the result; the
  cryptographic primitives and the random sources are arguments.
\<close>

section \<open>JavaScript values\<close>

text \<open>
  A \<^verbatim>\<open>Uint8Array\<close> is a list of bytes. A JavaScript string is a \<^typ>\<open>string\<close>: one
  character per UTF-16 code unit, for the code points up to U+00FF. The values that reach
  the modules come out of \<^verbatim>\<open>JSON.parse\<close>: null, booleans, numbers (finite, or an
  infinity when the literal overflows), strings, arrays and objects; a property that is
  missing reads as \<^verbatim>\<open>undefined\<close>. A finite number is kept as the rational it denotes,
  and arithmetic on finite numbers is exact, as the arithmetic of doubles is on integers.
  Counters that the code itself maintains (\<^verbatim>\<open>epoch\<close>, \<^verbatim>\<open>sendSeq\<close>,
  \<^verbatim>\<open>Date.now()\<close>) are integer-valued numbers and are kept as \<^typ>\<open>int\<close>; where the
  code adds to one without bound (\<^verbatim>\<open>sendSeq\<close>), the sum is rounded as a double is.
\<close>

type_synonym bytes = "8 word list"

datatype jsnum = Fin rat | PosInf | NegInf | NaN

datatype jsval =
    JUndefined
  | JNull
  | JBool bool
  | JNum jsnum
  | JStr string
  | JArr "jsval list"
  | JObj "(string \<times> jsval) list"

text \<open>\<^verbatim>\<open>typeof v\<close>.\<close>

fun typeof :: "jsval \<Rightarrow> string" where
  "typeof JUndefined = ''undefined''"
| "typeof JNull = ''object''"
| "typeof (JBool b) = ''boolean''"
| "typeof (JNum n) = ''number''"
| "typeof (JStr s) = ''string''"
| "typeof (JArr xs) = ''object''"
| "typeof (JObj kvs) = ''object''"

text \<open>ToBoolean, as \<^verbatim>\<open>if (v)\<close>, \<^verbatim>\<open>!v\<close> and \<^verbatim>\<open>a && b\<close> apply it.\<close>

fun truthy :: "jsval \<Rightarrow> bool" where
  "truthy JUndefined = False"
| "truthy JNull = False"
| "truthy (JBool b) = b"
| "truthy (JNum (Fin q)) = (q \<noteq> 0)"
| "truthy (JNum PosInf) = True"
| "truthy (JNum NegInf) = True"
| "truthy (JNum NaN) = False"
| "truthy (JStr s) = (s \<noteq> [])"
| "truthy (JArr xs) = True"
| "truthy (JObj kvs) = True"

text \<open>Property access \<^verbatim>\<open>o.k\<close> on a parsed value: own properties of an object, nothing else.\<close>

fun js_prop :: "jsval \<Rightarrow> string \<Rightarrow> jsval" where
  "js_prop (JObj kvs) k = (case map_of kvs k of None \<Rightarrow> JUndefined | Some v \<Rightarrow> v)"
| "js_prop v k = JUndefined"

text \<open>
  Arrays and objects have an identity: \<^verbatim>\<open>===\<close> and the keys of a \<^verbatim>\<open>Map\<close> compare two
  of them by reference, every other value by what it is.
\<close>

fun is_ref :: "jsval \<Rightarrow> bool" where
  "is_ref (JArr xs) = True"
| "is_ref (JObj kvs) = True"
| "is_ref v = False"

subsection \<open>ToInt32: the operator \<^verbatim>\<open>v | 0\<close>\<close>

text \<open>An integer reduced modulo \<open>2^32\<close> into the signed range.\<close>

definition wrap32 :: "int \<Rightarrow> int" where
  "wrap32 i = (i + 2 ^ 31) mod 2 ^ 32 - 2 ^ 31"

text \<open>Truncation towards zero.\<close>

definition trunc_rat :: "rat \<Rightarrow> int" where
  "trunc_rat q = (if 0 \<le> q then \<lfloor>q\<rfloor> else - \<lfloor>- q\<rfloor>)"

text \<open>
  \<^verbatim>\<open>v | 0\<close>. ToNumber sends \<^verbatim>\<open>undefined\<close> to NaN and ToInt32 sends NaN and the
  infinities to 0. On a string, an array or an object the result goes through
  StringToNumber and ToPrimitive, which are not modelled: the first argument stands for
  them, and its result is reduced into the 32-bit range whatever it is.
\<close>

fun toInt32 :: "(jsval \<Rightarrow> int) \<Rightarrow> jsval \<Rightarrow> int" where
  "toInt32 ext JUndefined = 0"
| "toInt32 ext JNull = 0"
| "toInt32 ext (JBool b) = (if b then 1 else 0)"
| "toInt32 ext (JNum (Fin q)) = wrap32 (trunc_rat q)"
| "toInt32 ext (JNum PosInf) = 0"
| "toInt32 ext (JNum NegInf) = 0"
| "toInt32 ext (JNum NaN) = 0"
| "toInt32 ext v = wrap32 (ext v)"

subsection \<open>Sums of integer-valued numbers\<close>

text \<open>
  A number is a double: every integer of magnitude up to \<open>2^53\<close> is one, and a larger one
  is a 53-bit significand times a power of two. The sum of two integer-valued numbers is
  the exact sum rounded to the nearest double, to the one with the even significand when
  two are equally near (below \<open>2^1024\<close>, where the doubles end).
\<close>

fun bitlen :: "nat \<Rightarrow> nat" where
  "bitlen n = (if n = 0 then 0 else Suc (bitlen (n div 2)))"

declare bitlen.simps [simp del]

definition round_double :: "int \<Rightarrow> int" where
  "round_double i =
     (let m = nat \<bar>i\<bar>;
          k = bitlen m - 53;
          q = m div 2 ^ k;
          r = m mod 2 ^ k;
          q' = (if 2 ^ k < 2 * r \<or> (2 ^ k = 2 * r \<and> odd q) then q + 1 else q)
      in sgn i * int (q' * 2 ^ k))"

section \<open>Bytes and text\<close>

subsection \<open>Base64, ORIGINAL variant: \<^verbatim>\<open>b64 = u => sodium.to_base64(u, enc)\<close>\<close>

definition b64_alphabet :: string where
  "b64_alphabet = ''ABCDEFGHIJKLMNOPQRSTUVWXYZabcdefghijklmnopqrstuvwxyz0123456789+/''"

definition b64_char :: "8 word \<Rightarrow> char" where
  "b64_char w = b64_alphabet ! (unat w mod 64)"

fun b64 :: "bytes \<Rightarrow> string" where
  "b64 (a # b # c # rest) =
     b64_char (drop_bit 2 a)
     # b64_char (push_bit 4 (a AND 3) OR drop_bit 4 b)
     # b64_char (push_bit 2 (b AND 15) OR drop_bit 6 c)
     # b64_char (c AND 63)
     # b64 rest"
| "b64 [a, b] =
     [b64_char (drop_bit 2 a),
      b64_char (push_bit 4 (a AND 3) OR drop_bit 4 b),
      b64_char (push_bit 2 (b AND 15)),
      CHR ''='']"
| "b64 [a] =
     [b64_char (drop_bit 2 a), b64_char (push_bit 4 (a AND 3)), CHR ''='', CHR ''='']"
| "b64 [] = []"

subsection \<open>UTF-8: \<^verbatim>\<open>new TextEncoder().encode(s)\<close>\<close>

definition utf8_char :: "char \<Rightarrow> bytes" where
  "utf8_char c =
     (let n = (of_char c :: nat) in
      if n < 128 then [of_nat n]
      else [of_nat (192 + n div 64), of_nat (128 + n mod 64)])"

definition utf8 :: "string \<Rightarrow> bytes" where
  "utf8 s = concat (map utf8_char s)"

subsection \<open>\<^verbatim>\<open>JSON.stringify\<close> on the shapes the modules serialise\<close>

definition digit_char :: "nat \<Rightarrow> char" where
  "digit_char d = char_of (48 + d mod 10)"

fun digits :: "nat \<Rightarrow> string" where
  "digits n = (if n < 10 then [digit_char n] else digits (n div 10) @ [digit_char (n mod 10)])"

declare digits.simps [simp del]

text \<open>An integer-valued number prints in decimal (below \<open>10^21\<close>, where JavaScript does).\<close>

definition json_int :: "int \<Rightarrow> string" where
  "json_int i = (if i < 0 then CHR ''-'' # digits (nat (- i)) else digits (nat i))"

definition hex_char :: "nat \<Rightarrow> char" where
  "hex_char d = ''0123456789abcdef'' ! (d mod 16)"

text \<open>QuoteJSONString, one code unit.\<close>

definition json_escape :: "char \<Rightarrow> string" where
  \<open>json_escape c =
     (let n = (of_char c :: nat) in
      if c = CHR 0x22 then [CHR 0x5C, CHR 0x22]
      else if c = CHR 0x5C then [CHR 0x5C, CHR 0x5C]
      else if n = 8 then [CHR 0x5C, CHR ''b'']
      else if n = 9 then [CHR 0x5C, CHR ''t'']
      else if n = 10 then [CHR 0x5C, CHR ''n'']
      else if n = 12 then [CHR 0x5C, CHR ''f'']
      else if n = 13 then [CHR 0x5C, CHR ''r'']
      else if n < 32 then [CHR 0x5C, CHR ''u'', CHR ''0'', CHR ''0'', hex_char (n div 16), hex_char n]
      else [c])\<close>

definition json_string :: "string \<Rightarrow> string" where
  \<open>json_string s = CHR 0x22 # concat (map json_escape s) @ [CHR 0x22]\<close>

fun join :: "string \<Rightarrow> string list \<Rightarrow> string" where
  "join sep [] = []"
| "join sep [x] = x"
| "join sep (x # y # ys) = x @ sep @ join sep (y # ys)"

text \<open>An object whose property values are already serialised, in insertion order.\<close>

definition json_object :: "(string \<times> string) list \<Rightarrow> string" where
  \<open>json_object kvs = ''{'' @ join '','' (map (\<lambda>(k, v). json_string k @ '':'' @ v) kvs) @ ''}''\<close>

definition json_array :: "string list \<Rightarrow> string" where
  \<open>json_array vs = ''['' @ join '','' vs @ '']''\<close>

section \<open>The primitives the modules call\<close>

text \<open>
  libsodium, the KEM and the host's parsing functions are outside the repository; the
  modules are verified for every behaviour of them. A call that libsodium-wrappers lets
  throw returns an option, \<open>None\<close> being the exception.
\<close>

record env =
  crypto_generichash :: "nat \<Rightarrow> bytes \<Rightarrow> bytes option \<Rightarrow> bytes"
    \<comment> \<open>\<^verbatim>\<open>sodium.crypto_generichash(len, msg, key)\<close>\<close>
  aead_encrypt :: "bytes \<Rightarrow> bytes \<Rightarrow> bytes \<Rightarrow> bytes \<Rightarrow> bytes option"
    \<comment> \<open>\<^verbatim>\<open>crypto_aead_xchacha20poly1305_ietf_encrypt(msg, aad, null, nonce, key)\<close>\<close>
  aead_decrypt :: "bytes \<Rightarrow> bytes \<Rightarrow> bytes \<Rightarrow> bytes \<Rightarrow> bytes option"
    \<comment> \<open>\<^verbatim>\<open>crypto_aead_xchacha20poly1305_ietf_decrypt(null, cipher, aad, nonce, key)\<close>\<close>
  from_base64 :: "string \<Rightarrow> bytes option"
    \<comment> \<open>\<^verbatim>\<open>sodium.from_base64(s, enc)\<close>\<close>
  to_string :: "bytes \<Rightarrow> string option"
    \<comment> \<open>\<^verbatim>\<open>sodium.to_string(bytes)\<close>\<close>
  crypto_scalarmult :: "bytes \<Rightarrow> bytes \<Rightarrow> bytes option"
  crypto_sign_detached :: "bytes \<Rightarrow> bytes \<Rightarrow> bytes option"
  crypto_sign_verify_detached :: "bytes \<Rightarrow> bytes \<Rightarrow> bytes \<Rightarrow> bool option"
  kem_encap :: "bytes \<Rightarrow> bytes \<Rightarrow> (bytes \<times> bytes) option"
    \<comment> \<open>\<^verbatim>\<open>kem.encap(pk)\<close> on the coins it draws: ciphertext and shared secret\<close>
  kem_decap :: "bytes \<Rightarrow> bytes \<Rightarrow> bytes option"
    \<comment> \<open>\<^verbatim>\<open>kem.decap(ct, sk)\<close>\<close>
  coerce_int32 :: "jsval \<Rightarrow> int"
    \<comment> \<open>ToInt32 on strings, arrays and objects\<close>
  js_to_string :: "jsval \<Rightarrow> string"
    \<comment> \<open>ToString on values that are neither strings nor integers\<close>
  json_parse :: "string \<Rightarrow> jsval option"
    \<comment> \<open>\<^verbatim>\<open>JSON.parse\<close>\<close>
  text_decode :: "bytes \<Rightarrow> string"
    \<comment> \<open>\<^verbatim>\<open>new TextDecoder().decode(bytes)\<close>\<close>

text \<open>\<^verbatim>\<open>u8 = b => sodium.from_base64(b, enc)\<close>, which throws unless given a string.\<close>

fun u8 :: "env \<Rightarrow> jsval \<Rightarrow> bytes option" where
  "u8 env (JStr s) = from_base64 env s"
| "u8 env v = None"

subsection \<open>ToString and \<^verbatim>\<open>JSON.stringify\<close> on parsed values\<close>

text \<open>
  ToString. An integer below \<open>10^21\<close> prints in decimal; the printing of other finite
  numbers, of arrays and of objects is left to the host.
\<close>

fun js_string :: "env \<Rightarrow> jsval \<Rightarrow> string" where
  "js_string env (JStr s) = s"
| "js_string env JUndefined = ''undefined''"
| "js_string env JNull = ''null''"
| "js_string env (JBool b) = (if b then ''true'' else ''false'')"
| "js_string env (JNum (Fin q)) =
     (if of_int \<lfloor>q\<rfloor> = q \<and> \<bar>q\<bar> < 10 ^ 21 then json_int \<lfloor>q\<rfloor> else js_to_string env (JNum (Fin q)))"
| "js_string env (JNum PosInf) = ''Infinity''"
| "js_string env (JNum NegInf) = ''-Infinity''"
| "js_string env (JNum NaN) = ''NaN''"
| "js_string env v = js_to_string env v"

text \<open>\<^verbatim>\<open>JSON.stringify(v)\<close>; a property whose value is \<^verbatim>\<open>undefined\<close> is left out.\<close>

fun stringify :: "env \<Rightarrow> jsval \<Rightarrow> string" where
  "stringify env JUndefined = ''undefined''"
| "stringify env JNull = ''null''"
| "stringify env (JBool b) = (if b then ''true'' else ''false'')"
| "stringify env (JNum (Fin q)) = js_string env (JNum (Fin q))"
| "stringify env (JNum n) = ''null''"
| "stringify env (JStr s) = json_string s"
| "stringify env (JArr xs) =
     json_array (map (\<lambda>x. if x = JUndefined then ''null'' else stringify env x) xs)"
| "stringify env (JObj kvs) =
     json_object (map (\<lambda>(k, v). (k, stringify env v)) (filter (\<lambda>(k, v). v \<noteq> JUndefined) kvs))"

text \<open>
  ToString, as a template literal applies it, raises a TypeError on an object that has a
  property \<^verbatim>\<open>toString\<close> of its own: no parsed value can be called, and the inherited
  \<^verbatim>\<open>valueOf\<close> returns the object. An array prints its elements, \<^verbatim>\<open>null\<close> as the empty
  string, and raises when one of them does.
\<close>

fun no_string :: "jsval \<Rightarrow> bool" where
  "no_string (JObj kvs) = (''toString'' \<in> fst ` set kvs)"
| "no_string (JArr xs) = (\<exists>x \<in> set xs. no_string x)"
| "no_string v = False"

subsection \<open>Random bytes\<close>

text \<open>
  The CSPRNG is the stream of bytes it will produce; \<^verbatim>\<open>sodium.randombytes_buf(n)\<close>
  takes the next \<open>n\<close> of them.
\<close>

type_synonym rng = "nat \<Rightarrow> 8 word"

definition randombytes_buf :: "nat \<Rightarrow> rng \<Rightarrow> bytes \<times> rng" where
  "randombytes_buf n r = (map r [0..<n], \<lambda>i. r (i + n))"

definition NPUBBYTES :: nat where
  "NPUBBYTES = 24"


section \<open>group.js: the class Group\<close>

text \<open>
  An inbound \<^verbatim>\<open>m\<close> frame, as parsed from the wire: every field \<^verbatim>\<open>decrypt\<close> reads is any
  value. \<^verbatim>\<open>JSON.parse\<close> allocates each array and object it reads, so a \<^verbatim>\<open>cid\<close> that is
  one has an address, \<open>m_cid_at\<close>, which nothing reads when \<^verbatim>\<open>cid\<close> is a string or
  another primitive value. The same text parsed twice gives two frames that differ in
  the address only.
\<close>

record m_frame =
  m_t :: string
  m_cid :: jsval
  m_cid_at :: nat
  m_s :: jsval
  m_e :: jsval
  m_n :: jsval
  m_c :: jsval

text \<open>
  A \<^verbatim>\<open>gk\<close> frame. Its \<^verbatim>\<open>cid\<close> goes into the AAD only, as the string the protocol gives
  it; the fields the code coerces or tests (\<^verbatim>\<open>to\<close>, \<^verbatim>\<open>e\<close>, \<^verbatim>\<open>rh\<close>) or hands to
  \<^verbatim>\<open>u8\<close> (\<^verbatim>\<open>n\<close>, \<^verbatim>\<open>ek\<close>) are any value.
\<close>

record gk_frame =
  gk_t :: string
  gk_cid :: string
  gk_to :: jsval
  gk_e :: jsval
  gk_rh :: jsval
  gk_n :: jsval
  gk_ek :: jsval

text \<open>
  A key of a \<^verbatim>\<open>Map\<close>: a primitive value, found again by any value equal to it, or the
  address of an array or object, found again by that same array or object only.
\<close>

datatype map_key = Prim jsval | Ref nat

text \<open>The key under which \<^verbatim>\<open>recvSeq\<close> holds the sender of a frame, \<^verbatim>\<open>msg.cid\<close>.\<close>

definition cid_key :: "m_frame \<Rightarrow> map_key" where
  "cid_key msg = (if is_ref (m_cid msg) then Ref (m_cid_at msg) else Prim (m_cid msg))"

text \<open>
  The fields of a Group. \<^verbatim>\<open>peers\<close> is a \<^verbatim>\<open>Map\<close> that is iterated, so it keeps its
  insertion order; \<^verbatim>\<open>recvSeq\<close> is a \<^verbatim>\<open>Map\<close> that is only read by key. The group's own
  \<^verbatim>\<open>cid\<close> is the string the constructor is given. \<^verbatim>\<open>sendSeq\<close> is a number that starts at
  0 and only ever has 1 added to it. The callbacks \<^verbatim>\<open>send\<close> and \<^verbatim>\<open>onReady\<close> belong to
  the caller: a call of one is an event in the method's output, and the callback is taken
  to return without calling into the group.
\<close>

record group =
  cid :: string
  peers :: "(string \<times> bytes) list"
  groupKey :: "bytes option"
  epoch :: int
  pending :: "m_frame list"
  sendSeq :: int
  recvSeq :: "map_key \<rightharpoonup> int"

datatype event = Ready | Send gk_frame

text \<open>The constructor.\<close>

definition Group_new :: "string \<Rightarrow> group" where
  "Group_new c =
     \<lparr>cid = c, peers = [], groupKey = None, epoch = 0, pending = [], sendSeq = 0,
      recvSeq = Map.empty\<rparr>"

text \<open>
  \<^verbatim>\<open>addPeer(cid, sk)\<close>, which is \<^verbatim>\<open>this.peers.set(cid, sk)\<close>: a key that is present keeps
  its place.
\<close>

definition addPeer :: "string \<Rightarrow> bytes \<Rightarrow> 'a group_scheme \<Rightarrow> 'a group_scheme" where
  "addPeer c sk g =
     g\<lparr>peers := (if c \<in> fst ` set (peers g)
                  then map (\<lambda>(k, v). if k = c then (k, sk) else (k, v)) (peers g)
                  else peers g @ [(c, sk)])\<rparr>"

text \<open>
  \<^verbatim>\<open>_nonce(cid, seq, epoch)\<close>: the 24-byte hash of the tag and
  \<^verbatim>\<open>`${cid}|${seq}|${epoch}`\<close>, or the TypeError of the template literal (\<open>None\<close>).
\<close>

definition nonce :: "env \<Rightarrow> jsval \<Rightarrow> int \<Rightarrow> int \<Rightarrow> bytes option" where
  "nonce env c seq ep =
     (if no_string c then None
      else Some (crypto_generichash env 24
             (utf8 ''NT-v1|nonce|'' @ utf8 (js_string env c @ ''|'' @ json_int seq @ ''|'' @ json_int ep))
             None))"

text \<open>
  \<^verbatim>\<open>_aad(obj)\<close>: the bytes of \<^verbatim>\<open>JSON.stringify({ t, cid, s, e })\<close>, the properties in
  that order.
\<close>

definition aad :: "env \<Rightarrow> string \<Rightarrow> jsval \<Rightarrow> int \<Rightarrow> int \<Rightarrow> bytes" where
  "aad env t c s e =
     utf8 (stringify env
       (JObj [(''t'', JStr t), (''cid'', c), (''s'', JNum (Fin (of_int s))), (''e'', JNum (Fin (of_int e)))]))"

text \<open>
  \<^verbatim>\<open>encrypt(txt)\<close>. The result is the returned frame, the object
  \<^verbatim>\<open>{t, cid, s, e, n, c}\<close> (or \<^verbatim>\<open>null\<close>), or the exception of the AEAD call, which is
  raised before \<^verbatim>\<open>sendSeq\<close> is written. \<^verbatim>\<open>this.sendSeq = s + 1\<close> is a sum of numbers.
\<close>

datatype error = SodiumError | MissingCt | TypeError

definition encrypt :: "env \<Rightarrow> string \<Rightarrow> 'a group_scheme \<Rightarrow> (error + jsval option) \<times> 'a group_scheme" where
  "encrypt env txt g =
     (case groupKey g of
        None \<Rightarrow> (Inr None, g)
      | Some key \<Rightarrow>
          (let s = sendSeq g;
               e = epoch g
           in case nonce env (JStr (cid g)) s e of
                None \<Rightarrow> (Inl TypeError, g)
              | Some nc \<Rightarrow>
                  (case aead_encrypt env (utf8 txt) (aad env ''m'' (JStr (cid g)) s e) nc key of
                     None \<Rightarrow> (Inl SodiumError, g)
                   | Some cipher \<Rightarrow>
                       (Inr (Some (JObj [(''t'', JStr ''m''), (''cid'', JStr (cid g)),
                                         (''s'', JNum (Fin (of_int s))), (''e'', JNum (Fin (of_int e))),
                                         (''n'', JStr (b64 nc)), (''c'', JStr (b64 cipher))])),
                        g\<lparr>sendSeq := round_double (s + 1)\<rparr>))))"

text \<open>\<^verbatim>\<open>this.recvSeq.get(msg.cid) ?? -1\<close>, on the key of \<^verbatim>\<open>msg.cid\<close>.\<close>

definition last_seq :: "'a group_scheme \<Rightarrow> map_key \<Rightarrow> int" where
  "last_seq g k = (case recvSeq g k of None \<Rightarrow> - 1 | Some v \<Rightarrow> v)"

text \<open>
  \<^verbatim>\<open>decrypt(msg)\<close>: the returned text (or \<^verbatim>\<open>null\<close>) and the state. Everything from
  \<^verbatim>\<open>_nonce\<close> on is inside \<^verbatim>\<open>try\<close>, so each exception there returns \<^verbatim>\<open>null\<close>;
  \<^verbatim>\<open>recvSeq.set\<close> comes before \<^verbatim>\<open>sodium.to_string\<close>, so a plaintext that is not UTF-8
  returns \<^verbatim>\<open>null\<close> with the sequence already recorded. The nonce that is computed is
  not the one that is used: that is the frame's \<^verbatim>\<open>n\<close>.
\<close>

definition decrypt :: "env \<Rightarrow> m_frame \<Rightarrow> 'a group_scheme \<Rightarrow> string option \<times> 'a group_scheme" where
  "decrypt env msg g =
     (case groupKey g of
        None \<Rightarrow> (None, g\<lparr>pending := pending g @ [msg]\<rparr>)
      | Some key \<Rightarrow>
          if toInt32 (coerce_int32 env) (m_e msg) \<noteq> wrap32 (epoch g) then (None, g)
          else
            (let last = last_seq g (cid_key msg)
             in if toInt32 (coerce_int32 env) (m_s msg) \<le> last then (None, g)
                else
                  (case nonce env (m_cid msg) (toInt32 (coerce_int32 env) (m_s msg))
                          (toInt32 (coerce_int32 env) (m_e msg)) of
                     None \<Rightarrow> (None, g)
                   | Some nc \<Rightarrow>
                       (let ad = aad env ''m'' (m_cid msg) (toInt32 (coerce_int32 env) (m_s msg))
                                   (toInt32 (coerce_int32 env) (m_e msg))
                        in case u8 env (m_c msg) of
                             None \<Rightarrow> (None, g)
                           | Some c \<Rightarrow>
                               (case u8 env (m_n msg) of
                                  None \<Rightarrow> (None, g)
                                | Some n \<Rightarrow>
                                    (case aead_decrypt env c ad n key of
                                       None \<Rightarrow> (None, g)
                                     | Some pt \<Rightarrow>
                                         (let g' = g\<lparr>recvSeq := (recvSeq g)
                                                      (cid_key msg \<mapsto> toInt32 (coerce_int32 env) (m_s msg))\<rparr>
                                          in (to_string env pt, g'))))))))"

text \<open>
  The loop of \<^verbatim>\<open>flush(cb)\<close>: \<^verbatim>\<open>while (this.pending.length)\<close>, shifting one frame off
  and calling \<^verbatim>\<open>decrypt\<close> on it. \<open>rest\<close> collects the frames of a later epoch, \<open>out\<close>
  the texts handed to \<^verbatim>\<open>cb\<close>. \<^verbatim>\<open>decrypt\<close> pushes onto \<^verbatim>\<open>pending\<close> when there is no
  key, so the loop by itself need not end: not returning is \<open>None\<close>.
\<close>

partial_function (option) flush_loop ::
  "env \<Rightarrow> m_frame list \<Rightarrow> string list \<Rightarrow> 'a group_scheme \<Rightarrow> (string list \<times> 'a group_scheme) option"
where
  "flush_loop env rest out g =
     (case pending g of
        [] \<Rightarrow> Some (out, if rest \<noteq> [] then g\<lparr>pending := rest @ pending g\<rparr> else g)
      | m # ms \<Rightarrow>
          (case decrypt env m (g\<lparr>pending := ms\<rparr>) of
             (Some txt, g') \<Rightarrow> flush_loop env rest (out @ [txt]) g'
           | (None, g') \<Rightarrow>
               flush_loop env
                 (if toInt32 (coerce_int32 env) (m_e m) > wrap32 (epoch g') then rest @ [m] else rest)
                 out g'))"

declare flush_loop.simps [code]

definition flush :: "env \<Rightarrow> 'a group_scheme \<Rightarrow> (string list \<times> 'a group_scheme) option" where
  "flush env g = (case groupKey g of None \<Rightarrow> Some ([], g) | Some key \<Rightarrow> flush_loop env [] [] g)"

text \<open>
  \<^verbatim>\<open>Group.loadGK(msg, mySk)\<close>: the events and the state, \<open>None\<close> if the call does not
  return. The whole body after the \<^verbatim>\<open>to\<close> test is inside \<^verbatim>\<open>try\<close>, and the state is
  written only after the AEAD call has returned.
\<close>

definition addressed_elsewhere :: "gk_frame \<Rightarrow> 'a group_scheme \<Rightarrow> bool" where
  "addressed_elsewhere msg g \<longleftrightarrow> truthy (gk_to msg) \<and> gk_to msg \<noteq> JStr (cid g)"

definition install :: "bytes \<Rightarrow> int \<Rightarrow> 'a group_scheme \<Rightarrow> 'a group_scheme" where
  "install gk e g = g\<lparr>groupKey := Some gk, epoch := e, sendSeq := 0, recvSeq := Map.empty\<rparr>"

definition Group_loadGK ::
  "env \<Rightarrow> gk_frame \<Rightarrow> bytes \<Rightarrow> 'a group_scheme \<Rightarrow> (event list \<times> 'a group_scheme) option" where
  "Group_loadGK env msg mySk g =
     (if addressed_elsewhere msg g then Some ([], g)
      else
        (let ad = aad env ''gk'' (JStr (gk_cid msg)) 0 (toInt32 (coerce_int32 env) (gk_e msg))
         in case u8 env (gk_ek msg) of
              None \<Rightarrow> Some ([], g)
            | Some ek \<Rightarrow>
                (case u8 env (gk_n msg) of
                   None \<Rightarrow> Some ([], g)
                 | Some n \<Rightarrow>
                     (case aead_decrypt env ek ad n mySk of
                        None \<Rightarrow> Some ([], g)
                      | Some gk \<Rightarrow>
                          map_option (\<lambda>(txts, g'). ([Ready], g'))
                            (flush env (install gk (toInt32 (coerce_int32 env) (gk_e msg)) g))))))"

section \<open>mls.js: the class MlsGroup\<close>

record mls_group = group +
  isInitiator :: bool

definition MlsGroup_new :: "string \<Rightarrow> bool \<Rightarrow> mls_group" where
  "MlsGroup_new c i = group.extend (Group_new c) (mls_group.fields i)"

text \<open>
  \<^verbatim>\<open>_aadGK(senderCid, epoch, rh)\<close>. It is called with a string or with \<^verbatim>\<open>undefined\<close>
  (\<open>None\<close>) for \<^verbatim>\<open>rh\<close>; \<^verbatim>\<open>if (rh) base.rh = rh\<close> adds the property when the string is not
  empty.
\<close>

definition aadGK :: "string \<Rightarrow> int \<Rightarrow> string option \<Rightarrow> bytes" where
  "aadGK senderCid ep rh =
     (let base = [(''t'', json_string ''gk''), (''cid'', json_string senderCid),
                  (''s'', json_int 0), (''e'', json_int ep)]
      in utf8 (json_object
           (case rh of
              None \<Rightarrow> base
            | Some r \<Rightarrow> if r \<noteq> [] then base @ [(''rh'', json_string r)] else base)))"



text \<open>
  The closure \<^verbatim>\<open>tryDecrypt(useRh)\<close> of \<^verbatim>\<open>MlsGroup.loadGK\<close>, on the \<^verbatim>\<open>rh\<close> it passes to
  \<^verbatim>\<open>_aadGK\<close>: \<open>Some\<close> of the frame's string for \<^verbatim>\<open>tryDecrypt(true)\<close>, \<open>None\<close> for
  \<^verbatim>\<open>tryDecrypt(false)\<close>. \<open>None\<close> as a result is an exception of \<^verbatim>\<open>u8\<close> or of the AEAD.
\<close>

definition tryDecrypt :: "env \<Rightarrow> gk_frame \<Rightarrow> bytes \<Rightarrow> int \<Rightarrow> string option \<Rightarrow> bytes option" where
  "tryDecrypt env msg mySk theirE rh =
     (case u8 env (gk_ek msg) of
        None \<Rightarrow> None
      | Some ek \<Rightarrow>
          (case u8 env (gk_n msg) of
             None \<Rightarrow> None
           | Some n \<Rightarrow> aead_decrypt env ek (aadGK (gk_cid msg) theirE rh) n mySk))"

text \<open>
  The two attempts, the \<^verbatim>\<open>try\<close> block and its \<^verbatim>\<open>catch\<close>: the list of the calls of
  \<^verbatim>\<open>tryDecrypt\<close> that were made, each as the \<^verbatim>\<open>rh\<close> it passed to \<^verbatim>\<open>_aadGK\<close>, and
  the value of \<^verbatim>\<open>gk\<close> afterwards.
\<close>

definition decryptGK ::
  "env \<Rightarrow> gk_frame \<Rightarrow> bytes \<Rightarrow> int \<Rightarrow> string option list \<times> bytes option" where
  "decryptGK env msg mySk theirE =
     (case gk_rh msg of
        JStr r \<Rightarrow>
          (case tryDecrypt env msg mySk theirE (Some r) of
             Some gk \<Rightarrow> ([Some r], Some gk)
           | None \<Rightarrow> ([Some r, None], tryDecrypt env msg mySk theirE None))
      | _ \<Rightarrow> ([None], tryDecrypt env msg mySk theirE None))"

text \<open>\<^verbatim>\<open>MlsGroup.loadGK(msg, mySk)\<close>.\<close>

definition loadGK ::
  "env \<Rightarrow> gk_frame \<Rightarrow> bytes \<Rightarrow> 'a mls_group_scheme \<Rightarrow> (event list \<times> 'a mls_group_scheme) option" where
  "loadGK env msg mySk g =
     (if addressed_elsewhere msg g then Some ([], g)
      else
        (let me = wrap32 (epoch g);
             theirE = toInt32 (coerce_int32 env) (gk_e msg)
         in if theirE \<le> me then Some ([], g)
            else
              (case snd (decryptGK env msg mySk theirE) of
                 None \<Rightarrow> Some ([], g)
               | Some gk \<Rightarrow>
                   map_option (\<lambda>(txts, g'). ([Ready], g')) (flush env (install gk theirE g)))))"



section \<open>handshake.js\<close>

text \<open>
  The record \<^verbatim>\<open>createLocalKeys\<close> returns (its \<^verbatim>\<open>kem\<close> object is the pair of
  primitives \<open>kem_encap\<close> and \<open>kem_decap\<close>), and the record the caller keeps for a peer:
  the peer's public keys, and what \<^verbatim>\<open>handshakeWith\<close> stores on it.
\<close>

record local_keys =
  xPub :: bytes
  xPriv :: bytes
  pqPub :: bytes
  pqPriv :: bytes
  idPub :: bytes
  idPriv :: bytes

record peer =
  p_idPub :: bytes
  p_xPub :: bytes
  p_pqPub :: bytes
  p_ct :: "bytes option"
  p_sig :: "bytes option"
  p_sigOK :: "bool option"
  p_sas :: "string option"

text \<open>\<^verbatim>\<open>fp4 = u => b64(sodium.crypto_generichash(4, u)).replace(/=+$/,"")\<close>.\<close>

definition fp4 :: "env \<Rightarrow> bytes \<Rightarrow> string" where
  "fp4 env u = rev (dropWhile (\<lambda>c. c = CHR ''='') (rev (b64 (crypto_generichash env 4 u None))))"

definition hkdfExtract :: "env \<Rightarrow> bytes \<Rightarrow> bytes \<Rightarrow> bytes" where
  "hkdfExtract env salt ikm = crypto_generichash env 32 ikm (Some salt)"

definition hkdfExpand :: "env \<Rightarrow> bytes \<Rightarrow> bytes \<Rightarrow> nat \<Rightarrow> bytes" where
  "hkdfExpand env prk info len = crypto_generichash env len (info @ [1]) (Some prk)"

text \<open>
  \<^verbatim>\<open>buildTranscript(local, peer, role, room)\<close> reads the three public keys of each side;
  \<open>lp\<close> and \<open>pp\<close> are those of \<^verbatim>\<open>local\<close> and of \<^verbatim>\<open>peer\<close>, as (id, x, pq).
\<close>

definition buildTranscript ::
  "bytes \<times> bytes \<times> bytes \<Rightarrow> bytes \<times> bytes \<times> bytes \<Rightarrow> string \<Rightarrow> string \<Rightarrow> bytes" where
  "buildTranscript lp pp role room =
     (let init = (if role = ''init'' then lp else pp);
          resp = (if role = ''init'' then pp else lp)
      in case (init, resp) of
           ((init_id, init_x, init_pq), (resp_id, resp_x, resp_pq)) \<Rightarrow>
             utf8 (concat
               [''NT-v1|handshake|'',
                room, ''|'',
                ''init.id='', b64 init_id, ''|'',
                ''resp.id='', b64 resp_id, ''|'',
                ''init.x='', b64 init_x, ''|'',
                ''resp.x='', b64 resp_x, ''|'',
                ''init.pq='', b64 init_pq, ''|'',
                ''resp.pq='', b64 resp_pq]))"

definition pubs_local :: "local_keys \<Rightarrow> bytes \<times> bytes \<times> bytes" where
  "pubs_local l = (idPub l, xPub l, pqPub l)"

definition pubs_peer :: "peer \<Rightarrow> bytes \<times> bytes \<times> bytes" where
  "pubs_peer p = (p_idPub p, p_xPub p, p_pqPub p)"

definition deriveSharedKey :: "env \<Rightarrow> bytes \<Rightarrow> bytes \<Rightarrow> bytes \<Rightarrow> string \<Rightarrow> bytes" where
  "deriveSharedKey env sharedX sharedK transcript room =
     (let salt = crypto_generichash env 32 (sharedX @ sharedK) None;
          prk = hkdfExtract env salt transcript;
          info = utf8 (''NullTrace v1 handshake|room='' @ (if room \<noteq> [] then room else ''nt''))
      in hkdfExpand env prk info 32)"

text \<open>
  \<^verbatim>\<open>handshakeWith(peer, local, role, room)\<close>: the pair key or the exception, and the peer
  record as the call leaves it. \<open>coins\<close> is the randomness \<^verbatim>\<open>kem.encap\<close> draws.
\<close>

definition handshakeWith ::
  "env \<Rightarrow> bytes \<Rightarrow> peer \<Rightarrow> local_keys \<Rightarrow> string \<Rightarrow> string \<Rightarrow> (error + bytes) \<times> peer" where
  "handshakeWith env coins pr loc role room =
     (case crypto_scalarmult env (xPriv loc) (p_xPub pr) of
        None \<Rightarrow> (Inl SodiumError, pr)
      | Some sharedX \<Rightarrow>
          (case (if role = ''init''
                 then (case kem_encap env (p_pqPub pr) coins of
                         None \<Rightarrow> Inl SodiumError
                       | Some (ct, sharedK) \<Rightarrow> Inr (sharedK, pr\<lparr>p_ct := Some ct\<rparr>))
                 else (case p_ct pr of
                         None \<Rightarrow> Inl MissingCt
                       | Some ct \<Rightarrow>
                           (case kem_decap env ct (pqPriv loc) of
                              None \<Rightarrow> Inl SodiumError
                            | Some sharedK \<Rightarrow> Inr (sharedK, pr)))) of
             Inl e \<Rightarrow> (Inl e, pr)
           | Inr (sharedK, pr1) \<Rightarrow>
               (let transcript = buildTranscript (pubs_local loc) (pubs_peer pr1) role room
                in case (if role = ''init''
                         then (case crypto_sign_detached env transcript (idPriv loc) of
                                 None \<Rightarrow> Inl SodiumError
                               | Some sg \<Rightarrow> Inr (pr1\<lparr>p_sig := Some sg\<rparr>))
                         else (case p_sig pr1 of
                                 None \<Rightarrow> Inr pr1
                               | Some sg \<Rightarrow>
                                   (case crypto_sign_verify_detached env sg transcript (p_idPub pr1) of
                                      None \<Rightarrow> Inr (pr1\<lparr>p_sigOK := Some False\<rparr>)
                                    | Some ok \<Rightarrow> Inr (pr1\<lparr>p_sigOK := Some ok\<rparr>)))) of
                     Inl e \<Rightarrow> (Inl e, pr1)
                   | Inr pr2 \<Rightarrow>
                       (Inr (deriveSharedKey env sharedX sharedK transcript room),
                        pr2\<lparr>p_sas := Some (fp4 env transcript)\<rparr>))))"

section \<open>nacp.js: the access capsule\<close>

definition CAPSULE_TTL_MS :: int where
  "CAPSULE_TTL_MS = 2 * 60 * 1000"

definition PAD_MIN :: int where
  "PAD_MIN = 512"

definition PAD_MAX :: int where
  "PAD_MAX = 1024"

definition MAX_CAPSULE_BYTES :: nat where
  "MAX_CAPSULE_BYTES = 4096"

definition CAPSULE_VER :: string where
  "CAPSULE_VER = ''NT-C1''"

definition CAPSULE_ALG :: string where
  "CAPSULE_ALG = ''Ed25519|X25519+ML-KEM-512''"

subsection \<open>Numbers and white space\<close>

text \<open>The comparison \<^verbatim>\<open>a > b\<close> and the difference \<^verbatim>\<open>a - b\<close> of two numbers.\<close>

fun num_gt :: "jsnum \<Rightarrow> jsnum \<Rightarrow> bool" where
  "num_gt NaN b = False"
| "num_gt a NaN = False"
| "num_gt (Fin a) (Fin b) = (b < a)"
| "num_gt PosInf b = (b \<noteq> PosInf)"
| "num_gt a NegInf = (a \<noteq> NegInf)"
| "num_gt a b = False"

fun num_sub :: "jsnum \<Rightarrow> jsnum \<Rightarrow> jsnum" where
  "num_sub NaN b = NaN"
| "num_sub a NaN = NaN"
| "num_sub (Fin a) (Fin b) = Fin (a - b)"
| "num_sub PosInf PosInf = NaN"
| "num_sub NegInf NegInf = NaN"
| "num_sub PosInf b = PosInf"
| "num_sub NegInf b = NegInf"
| "num_sub a PosInf = NegInf"
| "num_sub a NegInf = PosInf"

text \<open>\<^verbatim>\<open>String.prototype.trim\<close>, on the white space below U+0100.\<close>

definition is_space :: "char \<Rightarrow> bool" where
  "is_space c \<longleftrightarrow> (of_char c :: nat) \<in> {9, 10, 11, 12, 13, 32, 160}"

definition trim :: "string \<Rightarrow> string" where
  "trim s = rev (dropWhile is_space (rev (dropWhile is_space s)))"

subsection \<open>Building a capsule\<close>

text \<open>\<^verbatim>\<open>randomPad(len)\<close> on the bytes \<^verbatim>\<open>crypto.getRandomValues\<close> delivers.\<close>

definition randomPad :: "nat \<Rightarrow> rng \<Rightarrow> string" where
  "randomPad len r = map (\<lambda>v. char_of (33 + unat v mod 94)) (fst (randombytes_buf len r))"

text \<open>
  An element of \<^verbatim>\<open>parts.join("")\<close>: \<^verbatim>\<open>undefined\<close> and \<^verbatim>\<open>null\<close> join as the empty
  string, which is also what \<^verbatim>\<open>p.v ?? ""\<close> makes of them.
\<close>

definition join_elem :: "env \<Rightarrow> jsval \<Rightarrow> string" where
  "join_elem env v = (if v = JUndefined \<or> v = JNull then [] else js_string env v)"

text \<open>\<^verbatim>\<open>buildCapsuleTranscript(p)\<close>.\<close>

definition buildCapsuleTranscript :: "env \<Rightarrow> jsval \<Rightarrow> bytes" where
  "buildCapsuleTranscript env p =
     utf8 (concat
       ([''v='', join_elem env (js_prop p ''v''),
         ''|alg='', join_elem env (js_prop p ''alg''),
         ''|room='', join_elem env (js_prop p ''room''),
         ''|cid='', join_elem env (js_prop p ''cid''),
         ''|x='', join_elem env (js_prop p ''x''),
         ''|k='', join_elem env (js_prop p ''k'')]
        @ (if typeof (js_prop p ''iat'') = ''number''
           then [''|iat='', js_string env (js_prop p ''iat'')] else [])
        @ [''|exp='', js_string env (js_prop p ''exp'')]))"

text \<open>
  \<^verbatim>\<open>createCapsule(room, xPub, pqPub, cid, idPriv, idPub)\<close>, on the clock value \<open>now\<close>,
  the value \<open>rnd\<close> of \<^verbatim>\<open>Math.random()\<close> and the bytes \<open>r\<close> of
  \<^verbatim>\<open>crypto.getRandomValues\<close>. \<^verbatim>\<open>json.length\<close> counts code units.
\<close>

definition pad_target :: "rat \<Rightarrow> int" where
  "pad_target rnd = PAD_MIN + \<lfloor>rnd * of_int (PAD_MAX - PAD_MIN + 1)\<rfloor>"

definition capsule_payload :: "int \<Rightarrow> string \<Rightarrow> bytes \<Rightarrow> bytes \<Rightarrow> string \<Rightarrow> (string \<times> jsval) list" where
  "capsule_payload now room xp pqp c =
     [(''v'', JStr CAPSULE_VER),
      (''alg'', JStr CAPSULE_ALG),
      (''room'', JStr room),
      (''cid'', JStr c),
      (''x'', JStr (b64 xp)),
      (''k'', JStr (b64 pqp)),
      (''iat'', JNum (Fin (of_int now))),
      (''exp'', JNum (Fin (of_int (now + CAPSULE_TTL_MS))))]"

definition capsule_body ::
  "int \<Rightarrow> string \<Rightarrow> bytes \<Rightarrow> bytes \<Rightarrow> string \<Rightarrow> bytes \<Rightarrow> bytes \<Rightarrow> (string \<times> jsval) list" where
  "capsule_body now room xp pqp c idpub sg =
     [(''payload'', JObj (capsule_payload now room xp pqp c)),
      (''id'', JStr (b64 idpub)),
      (''sig'', JStr (b64 sg))]"

text \<open>
  The padding step: \<^verbatim>\<open>target\<close>, \<^verbatim>\<open>padCount\<close> and
  \<^verbatim>\<open>if (padCount > 0) capsule.pad = randomPad(padCount)\<close>.
\<close>

definition pad_capsule :: "env \<Rightarrow> rat \<Rightarrow> rng \<Rightarrow> (string \<times> jsval) list \<Rightarrow> (string \<times> jsval) list" where
  "pad_capsule env rnd r capsule =
     (let json = stringify env (JObj capsule);
          target = pad_target rnd;
          padCount = target - int (length json)
      in if padCount > 0 then capsule @ [(''pad'', JStr (randomPad (nat padCount) r))] else capsule)"

definition createCapsule ::
  "env \<Rightarrow> int \<Rightarrow> rat \<Rightarrow> rng \<Rightarrow> string \<Rightarrow> bytes \<Rightarrow> bytes \<Rightarrow> string \<Rightarrow> bytes \<Rightarrow> bytes \<Rightarrow> error + string" where
  "createCapsule env now rnd r room xp pqp c idpriv idpub =
     (let payload = JObj (capsule_payload now room xp pqp c);
          transcript = buildCapsuleTranscript env payload
      in case crypto_sign_detached env transcript idpriv of
           None \<Rightarrow> Inl SodiumError
         | Some sg \<Rightarrow>
             (let capsule = capsule_body now room xp pqp c idpub sg;
                  capsule' = pad_capsule env rnd r capsule
              in Inr (b64 (utf8 (stringify env (JObj capsule'))))))"

subsection \<open>Parsing a capsule\<close>

record invitation =
  inv_room :: jsval
  inv_cid :: jsval
  inv_xPub :: bytes
  inv_pqPub :: bytes
  inv_idPub :: bytes
  inv_ver :: jsval
  inv_alg :: jsval

text \<open>\<^verbatim>\<open>a || b\<close>.\<close>

definition js_or :: "jsval \<Rightarrow> jsval \<Rightarrow> jsval" where
  "js_or a b = (if truthy a then a else b)"

text \<open>
  The TTL checks of \<^verbatim>\<open>parseCapsule\<close>: \<open>True\<close> when one of the two \<^verbatim>\<open>return null\<close>
  statements is taken.
\<close>

definition ttl_rejects :: "int \<Rightarrow> jsval \<Rightarrow> jsval \<Rightarrow> bool" where
  "ttl_rejects now iat ex =
     (case ex of
        JNum e \<Rightarrow>
          num_gt (Fin (of_int now)) e
          \<or> (case iat of
                JNum i \<Rightarrow>
                  num_gt i (Fin (of_int now))
                  \<or> num_gt (num_sub e i) (Fin (of_int (CAPSULE_TTL_MS * 2)))
              | _ \<Rightarrow> False)
      | _ \<Rightarrow> True)"

text \<open>
  The body of the \<^verbatim>\<open>try\<close> block of \<^verbatim>\<open>parseCapsule(str)\<close>: the value it returns
  (\<open>None\<close> is \<^verbatim>\<open>null\<close>) or the exception a call raises.
\<close>

datatype parse_error = Base64Error | SyntaxError | VerifyError

text \<open>From the signature check to the returned record.\<close>

definition verify_and_decode :: "env \<Rightarrow> jsval \<Rightarrow> jsval \<Rightarrow> jsval \<Rightarrow> parse_error + invitation option" where
  "verify_and_decode env payload ident sg =
     (let transcript = buildCapsuleTranscript env payload
      in case u8 env ident of
           None \<Rightarrow> Inl Base64Error
         | Some idPubBytes \<Rightarrow>
             (case u8 env sg of
                None \<Rightarrow> Inl Base64Error
              | Some sigBytes \<Rightarrow>
                  (case crypto_sign_verify_detached env sigBytes transcript idPubBytes of
                     None \<Rightarrow> Inl VerifyError
                   | Some ok \<Rightarrow>
                       if \<not> ok then Inr None
                       else
                         (case u8 env (js_prop payload ''x'') of
                            None \<Rightarrow> Inl Base64Error
                          | Some xp \<Rightarrow>
                              (case u8 env (js_prop payload ''k'') of
                                 None \<Rightarrow> Inl Base64Error
                               | Some pqp \<Rightarrow>
                                   Inr (Some
                                     \<lparr>inv_room = js_prop payload ''room'',
                                      inv_cid = js_prop payload ''cid'',
                                      inv_xPub = xp,
                                      inv_pqPub = pqp,
                                      inv_idPub = idPubBytes,
                                      inv_ver = js_or (js_prop payload ''v'') (JStr ''legacy''),
                                      inv_alg = js_or (js_prop payload ''alg'') (JStr ''legacy'')\<rparr>))))))"

text \<open>From the parsed object to the TTL checks.\<close>

definition check_object :: "env \<Rightarrow> int \<Rightarrow> jsval \<Rightarrow> parse_error + invitation option" where
  "check_object env now obj =
     (if \<not> truthy obj \<or> typeof obj \<noteq> ''object'' then Inr None
      else
        (let payload = js_prop obj ''payload'';
             ident = js_prop obj ''id'';
             sg = js_prop obj ''sig''
         in if \<not> truthy payload \<or> typeof payload \<noteq> ''object'' then Inr None
            else if ttl_rejects now (js_prop payload ''iat'') (js_prop payload ''exp'') then Inr None
            else verify_and_decode env payload ident sg))"

definition parseCapsule_try :: "env \<Rightarrow> int \<Rightarrow> jsval \<Rightarrow> parse_error + invitation option" where
  "parseCapsule_try env now str =
     (case str of
        JStr s \<Rightarrow>
          (case from_base64 env (trim s) of
             None \<Rightarrow> Inl Base64Error
           | Some bs \<Rightarrow>
               if length bs > MAX_CAPSULE_BYTES then Inr None
               else
                 (case json_parse env (text_decode env bs) of
                    None \<Rightarrow> Inl SyntaxError
                  | Some obj \<Rightarrow> check_object env now obj))
      | _ \<Rightarrow> Inr None)"

text \<open>\<^verbatim>\<open>parseCapsule(str)\<close>: the \<^verbatim>\<open>try\<close> block and its \<^verbatim>\<open>catch { return null; }\<close>.\<close>

definition parseCapsule :: "env \<Rightarrow> int \<Rightarrow> jsval \<Rightarrow> parse_error + invitation option" where
  "parseCapsule env now str =
     (case parseCapsule_try env now str of
        Inl err \<Rightarrow> Inr None
      | Inr res \<Rightarrow> Inr res)"

section \<open>Runs and contracts\<close>

text \<open>The 32-bit signed range, which \<^verbatim>\<open>| 0\<close> maps into and leaves fixed.\<close>

definition int32 :: "int \<Rightarrow> bool" where
  "int32 i \<longleftrightarrow> - (2 ^ 31) \<le> i \<and> i < 2 ^ 31"

text \<open>
  A run of \<^verbatim>\<open>MlsGroup.loadGK\<close> over a list of frames, each with the pair key it is
  loaded with: the epochs of the calls that installed a key, in order, and the last state.
\<close>

fun loadGK_run ::
  "env \<Rightarrow> (gk_frame \<times> bytes) list \<Rightarrow> 'a mls_group_scheme \<Rightarrow> (int list \<times> 'a mls_group_scheme) option"
where
  "loadGK_run env [] g = Some ([], g)"
| "loadGK_run env ((msg, mySk) # rest) g =
     (case loadGK env msg mySk g of
        None \<Rightarrow> None
      | Some (evs, g') \<Rightarrow>
          map_option (\<lambda>(es, g''). ((if evs = [] then [] else [epoch g']) @ es, g''))
            (loadGK_run env rest g'))"

text \<open>
  The calls of a Group that install no key: every method but \<^verbatim>\<open>rekey\<close> and
  \<^verbatim>\<open>loadGK\<close>. A run of them gives the last state, or \<open>None\<close> if a call does not return;
  an exception of \<^verbatim>\<open>encrypt\<close> leaves the state as it was.
\<close>

datatype call = Decrypt m_frame | Encrypt string | Flush | AddPeer string bytes

fun call_step :: "env \<Rightarrow> call \<Rightarrow> 'a group_scheme \<Rightarrow> 'a group_scheme option" where
  "call_step env (Decrypt m) g = Some (snd (decrypt env m g))"
| "call_step env (Encrypt txt) g = Some (snd (encrypt env txt g))"
| "call_step env Flush g = map_option snd (flush env g)"
| "call_step env (AddPeer c sk) g = Some (addPeer c sk g)"

fun calls_run :: "env \<Rightarrow> call list \<Rightarrow> 'a group_scheme \<Rightarrow> 'a group_scheme option" where
  "calls_run env [] g = Some g"
| "calls_run env (c # cs) g =
     (case call_step env c g of None \<Rightarrow> None | Some g' \<Rightarrow> calls_run env cs g')"

text \<open>
  What the code relies on from libsodium: the AEAD takes any message under a 24-byte
  nonce and a 32-byte key, and the hash has the length asked for.
\<close>

definition aead_accepts :: "env \<Rightarrow> bool" where
  "aead_accepts env \<longleftrightarrow>
     (\<forall>m ad n k. length n = NPUBBYTES \<and> length k = 32 \<longrightarrow> aead_encrypt env m ad n k \<noteq> None)"

definition hash_length :: "env \<Rightarrow> bool" where
  "hash_length env \<longleftrightarrow> (\<forall>n m k. length (crypto_generichash env n m k) = n)"


text \<open>The AAD of the first attempt of \<^verbatim>\<open>MlsGroup.loadGK\<close>.\<close>

definition primary_aad :: "gk_frame \<Rightarrow> int \<Rightarrow> bytes" where
  "primary_aad msg theirE =
     (case gk_rh msg of
        JStr r \<Rightarrow> aadGK (gk_cid msg) theirE (Some r)
      | _ \<Rightarrow> aadGK (gk_cid msg) theirE None)"

subsection \<open>A small instance of the primitives, to run the model on concrete values\<close>

definition demo_tag :: "bytes \<Rightarrow> bytes \<Rightarrow> bytes \<Rightarrow> 8 word" where
  "demo_tag ad n k = of_nat (length ad) + sum_list n + sum_list k"

definition demo_hash :: "nat \<Rightarrow> bytes \<Rightarrow> bytes option \<Rightarrow> bytes" where
  "demo_hash n m k =
     replicate n (sum_list m + (case k of None \<Rightarrow> 0 | Some x \<Rightarrow> 1 + sum_list x))"

definition demo_env :: env where
  "demo_env =
     \<lparr>crypto_generichash = demo_hash,
      aead_encrypt = (\<lambda>m ad n k.
         if length n = 24 \<and> length k = 32 then Some (m @ [demo_tag ad n k]) else None),
      aead_decrypt = (\<lambda>c ad n k.
         if c \<noteq> [] \<and> last c = demo_tag ad n k then Some (butlast c) else None),
      from_base64 = (\<lambda>s. Some (map of_char s)),
      to_string = (\<lambda>bs. Some (map (\<lambda>b. char_of (unat b)) bs)),
      crypto_scalarmult = (\<lambda>priv pub. Some (map (\<lambda>(a, b). b ^ unat a) (zip priv pub))),
      crypto_sign_detached = (\<lambda>m k. Some (replicate 64 (sum_list m + sum_list k))),
      crypto_sign_verify_detached = (\<lambda>sg m pk. Some (sg = replicate 64 (sum_list m + sum_list pk))),
      kem_encap = (\<lambda>pk coins. Some (map (\<lambda>(a, b). a + b) (zip coins pk), coins)),
      kem_decap = (\<lambda>ct sk. Some (map (\<lambda>(a, b). a - b) (zip ct sk))),
      coerce_int32 = (\<lambda>v. 0),
      js_to_string = (\<lambda>v. ''?''),
      json_parse = (\<lambda>s. if s = ''{}'' then Some (JObj []) else None),
      text_decode = (\<lambda>bs. map (\<lambda>b. char_of (unat b)) bs)\<rparr>"

text \<open>A pair key, a sealed box under the instance, and \<^verbatim>\<open>gk\<close> frames for the member bob.\<close>

definition demo_key :: bytes where
  "demo_key = replicate 32 7"

definition demo_seal :: "bytes \<Rightarrow> bytes \<Rightarrow> string \<Rightarrow> bytes \<Rightarrow> jsval" where
  "demo_seal m ad n k = JStr (map (\<lambda>b. char_of (unat b)) (m @ [demo_tag ad (map of_char n) k]))"

definition demo_gk :: "int \<Rightarrow> jsval \<Rightarrow> gk_frame" where
  "demo_gk e rh =
     \<lparr>gk_t = ''gk'', gk_cid = ''host'', gk_to = JStr ''bob'', gk_e = JNum (Fin (of_int e)), gk_rh = rh,
      gk_n = JStr ''n'',
      gk_ek = demo_seal (replicate 32 9)
                (aadGK ''host'' e (case rh of JStr r \<Rightarrow> Some r | _ \<Rightarrow> None)) ''n'' demo_key\<rparr>"

definition demo_bob :: mls_group where
  "demo_bob = MlsGroup_new ''bob'' False"

definition demo_frames :: "(gk_frame \<times> bytes) list" where
  "demo_frames = [(demo_gk 4 JUndefined, demo_key), (demo_gk 2 JUndefined, demo_key),
                  (demo_gk 5 (JStr ''abc''), demo_key)]"

definition demo_group_key :: bytes where
  "demo_group_key = replicate 32 9"

text \<open>An \<^verbatim>\<open>m\<close> frame of epoch 1 from the host, and bob's group with the key installed.\<close>

definition demo_m :: "int \<Rightarrow> string \<Rightarrow> m_frame" where
  "demo_m s body =
     \<lparr>m_t = ''m'', m_cid = JStr ''host'', m_cid_at = 0, m_s = JNum (Fin (of_int s)), m_e = JNum (Fin 1),
      m_n = JStr ''n'',
      m_c = demo_seal (utf8 body) (aad demo_env ''m'' (JStr ''host'') s 1) ''n'' demo_group_key\<rparr>"

text \<open>
  The frame \<^verbatim>\<open>{"t":"m","cid":[],"s":5,"e":1,"n":...,"c":...}\<close> of a member that names
  itself by an array, as parsed at the address \<open>a\<close>.
\<close>

definition demo_array_m :: "nat \<Rightarrow> m_frame" where
  "demo_array_m a =
     \<lparr>m_t = ''m'', m_cid = JArr [], m_cid_at = a, m_s = JNum (Fin 5), m_e = JNum (Fin 1),
      m_n = JStr ''n'',
      m_c = demo_seal (utf8 ''hi'') (aad demo_env ''m'' (JArr []) 5 1) ''n'' demo_group_key\<rparr>"

definition demo_keyed :: group where
  "demo_keyed = (Group_new ''bob'')\<lparr>groupKey := Some demo_group_key, epoch := 1\<rparr>"

definition demo_old :: group where
  "demo_old = (Group_new ''bob'')\<lparr>groupKey := Some demo_key, epoch := 5, sendSeq := 3, recvSeq := [Prim (JStr ''host'') \<mapsto> 4]\<rparr>"

text \<open>Frames sealed under the legacy AAD that carry a string \<^verbatim>\<open>rh\<close> all the same.\<close>

definition demo_empty_rh :: gk_frame where
  "demo_empty_rh = (demo_gk 4 JUndefined)\<lparr>gk_rh := JStr []\<rparr>"

definition demo_legacy_rh :: gk_frame where
  "demo_legacy_rh = (demo_gk 4 JUndefined)\<lparr>gk_rh := JStr ''abc''\<rparr>"

text \<open>A frame of epoch 4 whose sealed box holds one byte where a key is expected.\<close>

definition demo_short_gk :: gk_frame where
  "demo_short_gk = (demo_gk 4 JUndefined)\<lparr>gk_ek := demo_seal [9] (aadGK ''host'' 4 None) ''n'' demo_key\<rparr>"


definition demo_rng :: rng where
  "demo_rng = (\<lambda>i. of_nat i)"

text \<open>Two key records for the toy primitives, and the record one side keeps of the other.\<close>

definition demo_alice :: local_keys where
  "demo_alice = \<lparr>xPub = [9], xPriv = [2], pqPub = [11], pqPriv = [11], idPub = [21], idPriv = [21]\<rparr>"

definition demo_bob_keys :: local_keys where
  "demo_bob_keys = \<lparr>xPub = [27], xPriv = [3], pqPub = [5], pqPriv = [5], idPub = [23], idPriv = [23]\<rparr>"

definition peer_of :: "local_keys \<Rightarrow> bytes option \<Rightarrow> peer" where
  "peer_of l c =
     \<lparr>p_idPub = idPub l, p_xPub = xPub l, p_pqPub = pqPub l, p_ct = c, p_sig = None,
      p_sigOK = None, p_sas = None\<rparr>"

text \<open>A signed capsule, and the instance with a parser that knows it.\<close>

definition demo_payload :: jsval where
  "demo_payload =
     JObj [(''v'', JStr ''NT-C1''), (''room'', JStr ''r1''), (''cid'', JStr ''host''),
           (''x'', JStr ''x''), (''k'', JStr ''k''),
           (''iat'', JNum (Fin 1000)), (''exp'', JNum (Fin 121000))]"

definition demo_capsule :: jsval where
  "demo_capsule =
     JObj [(''payload'', demo_payload),
           (''id'', JStr ''id''),
           (''sig'', JStr (map (\<lambda>b. char_of (unat b))
               (replicate 64 (sum_list (buildCapsuleTranscript demo_env demo_payload)
                              + sum_list (map of_char ''id'')))))]"

definition demo_capsule_env :: env where
  "demo_capsule_env = demo_env\<lparr>json_parse := (\<lambda>s. if s = ''capsule'' then Some demo_capsule else None)\<rparr>"

section \<open>Properties\<close>

subsection \<open>The 32-bit range and truncation\<close>

lemma wrap32_range: "int32 (wrap32 i)"
  by (simp add: wrap32_def int32_def)

lemma wrap32_id: "int32 i \<Longrightarrow> wrap32 i = i"
  by (simp add: wrap32_def int32_def)

lemma toInt32_range: "int32 (toInt32 ext v)"
  by (induction ext v rule: toInt32.induct) (simp_all add: wrap32_range, simp_all add: int32_def)

lemma trunc_rat_literal [simp]:
  "trunc_rat (numeral n) = numeral n" "trunc_rat 0 = 0" "trunc_rat 1 = 1" "trunc_rat (of_int i) = i"
  by (simp_all add: trunc_rat_def)

subsection \<open>Rounded sums\<close>

lemma bitlen_le: "n < 2 ^ k \<Longrightarrow> bitlen n \<le> k"
proof (induction k arbitrary: n)
  case 0
  then show ?case by (simp add: bitlen.simps)
next
  case (Suc k)
  then have "n div 2 < 2 ^ k" by auto
  from Suc.IH [OF this] show ?case by (subst bitlen.simps) simp
qed

lemma bitlen_eq: "2 ^ k \<le> n \<Longrightarrow> n < 2 ^ Suc k \<Longrightarrow> bitlen n = Suc k"
proof (induction k arbitrary: n)
  case 0
  then have "n = 1" by simp
  then show ?case by (simp add: bitlen.simps)
next
  case (Suc k)
  then have "2 ^ k \<le> n div 2" "n div 2 < 2 ^ Suc k" by auto
  from Suc.IH [OF this] Suc.prems show ?case by (subst bitlen.simps) auto
qed

lemma round_double_small: "\<bar>i\<bar> < 2 ^ 53 \<Longrightarrow> round_double i = i"
proof -
  assume "\<bar>i\<bar> < 2 ^ 53"
  then have "nat \<bar>i\<bar> < 2 ^ 53" by simp
  from bitlen_le [OF this] have "bitlen (nat \<bar>i\<bar>) - 53 = 0" by simp
  then show ?thesis by (simp add: round_double_def Let_def mult_sgn_abs)
qed

lemma round_double_2_53: "round_double (2 ^ 53) = 2 ^ 53"
proof -
  have "bitlen (2 ^ 53) = Suc 53" by (rule bitlen_eq) simp_all
  then have "bitlen (nat \<bar>2 ^ 53\<bar>) - 53 = 1" by simp
  then show ?thesis by (simp add: round_double_def Let_def)
qed

lemma round_double_stalls: "round_double (2 ^ 53 + 1) = 2 ^ 53"
proof -
  have "bitlen (2 ^ 53 + 1) = Suc 53" by (rule bitlen_eq) simp_all
  then have "bitlen (nat \<bar>2 ^ 53 + 1\<bar>) - 53 = 1" by simp
  then show ?thesis by (simp add: round_double_def Let_def)
qed

lemma round_double_succ: "\<bar>s\<bar> < 2 ^ 53 \<Longrightarrow> round_double (s + 1) = s + 1"
proof -
  assume a: "\<bar>s\<bar> < 2 ^ 53"
  show ?thesis
  proof (cases "s + 1 = 2 ^ 53")
    case True
    then show ?thesis by (simp only: round_double_2_53)
  next
    case False
    with a have "\<bar>s + 1\<bar> < 2 ^ 53" by linarith
    then show ?thesis by (rule round_double_small)
  qed
qed

subsection \<open>The nonce and the AAD of a string sender\<close>

lemma js_string_int: "\<bar>i\<bar> < 10 ^ 21 \<Longrightarrow> js_string env (JNum (Fin (of_int i))) = json_int i"
proof -
  assume "\<bar>i\<bar> < 10 ^ 21"
  then have "(of_int \<bar>i\<bar> :: rat) < of_int (10 ^ 21)" by (simp only: of_int_less_iff)
  then have "\<bar>of_int i :: rat\<bar> < 10 ^ 21" by simp
  then show ?thesis by simp
qed

lemma aad_JStr:
  "\<bar>s\<bar> < 10 ^ 21 \<Longrightarrow> \<bar>e\<bar> < 10 ^ 21 \<Longrightarrow>
   aad env t (JStr c) s e =
     utf8 (json_object
       [(''t'', json_string t), (''cid'', json_string c), (''s'', json_int s), (''e'', json_int e)])"
  by (simp add: aad_def js_string_int del: js_string.simps)

lemma nonce_JStr:
  "nonce env (JStr c) s e =
     Some (crypto_generichash env 24
       (utf8 ''NT-v1|nonce|'' @ utf8 (c @ ''|'' @ json_int s @ ''|'' @ json_int e)) None)"
  by (simp add: nonce_def)

subsection \<open>What decrypt and flush leave alone\<close>

lemma decrypt_keeps:
  "decrypt env m g = (r, g') \<Longrightarrow>
     groupKey g' = groupKey g \<and> epoch g' = epoch g \<and> sendSeq g' = sendSeq g \<and> cid g' = cid g \<and> peers g' = peers g"
  by (auto simp: decrypt_def Let_def split: option.splits if_splits)

lemma decrypt_pending:
  "decrypt env m g = (r, g') \<Longrightarrow> groupKey g \<noteq> None \<Longrightarrow> pending g' = pending g"
  by (auto simp: decrypt_def Let_def split: option.splits if_splits)

lemma decrypt_recvSeq_source:
  "decrypt env m g = (r, g') \<Longrightarrow> recvSeq g' c = Some s \<Longrightarrow>
     recvSeq g c = Some s \<or> (cid_key m = c \<and> toInt32 (coerce_int32 env) (m_s m) = s)"
  by (auto simp: decrypt_def Let_def split: option.splits if_splits)

lemma flush_loop_returns:
  "groupKey g \<noteq> None \<Longrightarrow> pending g = ps \<Longrightarrow>
   \<exists>out' g'. flush_loop env rest out g = Some (out', g') \<and> groupKey g' = groupKey g \<and>
      epoch g' = epoch g \<and> sendSeq g' = sendSeq g \<and> cid g' = cid g \<and> peers g' = peers g \<and>
      (\<forall>c s. recvSeq g' c = Some s \<longrightarrow> recvSeq g c = Some s \<or>
          (\<exists>m \<in> set ps. cid_key m = c \<and> toInt32 (coerce_int32 env) (m_s m) = s))"
proof (induction ps arbitrary: g rest out)
  case Nil
  then show ?case by (subst flush_loop.simps) simp
next
  case (Cons m ms)
  obtain r g1 where d: "decrypt env m (g\<lparr>pending := ms\<rparr>) = (r, g1)"
    by (cases "decrypt env m (g\<lparr>pending := ms\<rparr>)")
  from decrypt_keeps [OF d] decrypt_pending [OF d] Cons.prems
  have k: "groupKey g1 = groupKey g" "epoch g1 = epoch g" "sendSeq g1 = sendSeq g"
    "cid g1 = cid g" "peers g1 = peers g" "pending g1 = ms" "groupKey g1 \<noteq> None"
    by simp_all
  have src: "\<And>c s. recvSeq g1 c = Some s \<Longrightarrow>
      recvSeq g c = Some s \<or> (cid_key m = c \<and> toInt32 (coerce_int32 env) (m_s m) = s)"
    using decrypt_recvSeq_source [OF d] by simp
  define rest' where
    "rest' = (if toInt32 (coerce_int32 env) (m_e m) > wrap32 (epoch g1) then rest @ [m] else rest)"
  define out1 where "out1 = (case r of None \<Rightarrow> out | Some tx \<Rightarrow> out @ [tx])"
  define rest1 where "rest1 = (case r of None \<Rightarrow> rest' | Some tx \<Rightarrow> rest)"
  have step: "flush_loop env rest out g = flush_loop env rest1 out1 g1"
    using Cons.prems d by (subst flush_loop.simps) (simp add: rest'_def out1_def rest1_def split: option.splits)
  from Cons.IH [OF k(7) k(6), of rest1 out1]
  obtain out' g' where f: "flush_loop env rest1 out1 g1 = Some (out', g')"
    and k': "groupKey g' = groupKey g1" "epoch g' = epoch g1" "sendSeq g' = sendSeq g1"
      "cid g' = cid g1" "peers g' = peers g1"
    and src': "\<forall>c s. recvSeq g' c = Some s \<longrightarrow> recvSeq g1 c = Some s \<or>
          (\<exists>m \<in> set ms. cid_key m = c \<and> toInt32 (coerce_int32 env) (m_s m) = s)"
    by blast
  have "\<forall>c s. recvSeq g' c = Some s \<longrightarrow> recvSeq g c = Some s \<or>
          (\<exists>m' \<in> set (m # ms). cid_key m' = c \<and> toInt32 (coerce_int32 env) (m_s m') = s)"
    using src src' by (metis list.set_intros(1) list.set_intros(2))
  with step f k k' show ?case by simp
qed

lemma flush_returns:
  "\<exists>out' g'. flush env g = Some (out', g') \<and> groupKey g' = groupKey g \<and>
      epoch g' = epoch g \<and> sendSeq g' = sendSeq g \<and> cid g' = cid g \<and> peers g' = peers g \<and>
      (\<forall>c s. recvSeq g' c = Some s \<longrightarrow> recvSeq g c = Some s \<or>
          (\<exists>m \<in> set (pending g). cid_key m = c \<and> toInt32 (coerce_int32 env) (m_s m) = s))"
proof (cases "groupKey g")
  case None
  then show ?thesis by (simp add: flush_def)
next
  case (Some k)
  then have "groupKey g \<noteq> None" by simp
  from flush_loop_returns [OF this refl, of env "[]" "[]"] Some
  show ?thesis by (simp add: flush_def)
qed

lemma flush_no_pending: "pending g = [] \<Longrightarrow> flush env g = Some ([], g)"
  by (cases "groupKey g") (simp_all add: flush_def flush_loop.simps)

subsection \<open>Lengths of serialised text\<close>

lemma utf8_append: "utf8 (a @ b) = utf8 a @ utf8 b"
  by (simp add: utf8_def)

lemma length_utf8_char: "1 \<le> length (utf8_char c)"
  by (simp add: utf8_char_def Let_def)

lemma length_utf8: "length s \<le> length (utf8 s)"
proof (induction s)
  case Nil
  show ?case by (simp add: utf8_def)
next
  case (Cons c s)
  have "utf8 (c # s) = utf8_char c @ utf8 s" by (simp add: utf8_def)
  with Cons length_utf8_char [of c] show ?case by simp
qed

lemma join_snoc: "xs \<noteq> [] \<Longrightarrow> join sep (xs @ [x]) = join sep xs @ sep @ x"
  by (induction sep xs rule: join.induct) simp_all

lemma json_object_snoc:
  "kvs \<noteq> [] \<Longrightarrow>
   json_object (kvs @ [(k, v)]) = butlast (json_object kvs) @ '','' @ json_string k @ '':'' @ v @ ''}''"
  by (simp add: json_object_def join_snoc butlast_append)

lemma length_json_object_snoc:
  "kvs \<noteq> [] \<Longrightarrow>
   length (json_object (kvs @ [(k, v)])) = length (json_object kvs) + length (json_string k) + length v + 2"
  by (simp add: json_object_def join_snoc)

lemma length_json_escape: "1 \<le> length (json_escape c)"
  by (simp add: json_escape_def Let_def)

lemma length_concat_escape: "length s \<le> length (concat (map json_escape s))"
proof (induction s)
  case Nil
  show ?case by simp
next
  case (Cons c s)
  with length_json_escape [of c] show ?case by simp
qed

lemma length_json_string: "length s + 2 \<le> length (json_string s)"
  using length_concat_escape [of s] by (simp add: json_string_def)

lemma length_b64: "length (b64 bs) = 4 * ((length bs + 2) div 3)"
proof (induction bs rule: b64.induct)
  case (1 a b c rest)
  have "(length (a # b # c # rest) + 2) div 3 = (length rest + 2) div 3 + 1" by simp
  with 1 show ?case by simp
qed simp_all

lemma b64_length_ge: "n \<le> length bs \<Longrightarrow> 4 * ((n + 2) div 3) \<le> length (b64 bs)"
proof -
  assume "n \<le> length bs"
  then have "(n + 2) div 3 \<le> (length bs + 2) div 3" by (simp add: div_le_mono)
  then show ?thesis by (simp add: length_b64)
qed

subsection \<open>The small instance of the primitives\<close>

lemma word_of_char_of: "(of_char (char_of (unat b)) :: 8 word) = b"
proof -
  have "(of_char (char_of (unat b)) :: 8 word) = of_nat (of_char (char_of (unat b)))"
    by (simp only: of_nat_of_char)
  also have "\<dots> = of_nat (unat b mod 256)" by simp
  also have "\<dots> = b" using unsigned_less [of b, where 'a = nat] by simp
  finally show ?thesis .
qed

lemma demo_u8_str: "from_base64 demo_env s = Some (map of_char s)"
  by (simp add: demo_env_def)

lemma demo_u8_seal: "u8 demo_env (demo_seal m ad n k) = Some (m @ [demo_tag ad (map of_char n) k])"
  by (simp add: demo_env_def demo_seal_def word_of_char_of comp_def)

lemma demo_open:
  "aead_decrypt demo_env (m @ [demo_tag ad n k]) ad n k = Some m"
  by (simp add: demo_env_def)

lemma demo_decrypt:
  "aead_decrypt demo_env c ad n k = (if c \<noteq> [] \<and> last c = demo_tag ad n k then Some (butlast c) else None)"
  by (simp add: demo_env_def)

lemma demo_to_string_hi: "to_string demo_env (utf8 ''hi'') = Some ''hi''"
  by code_simp

lemma demo_contracts: "aead_accepts demo_env" "hash_length demo_env"
  by (simp_all add: aead_accepts_def hash_length_def demo_env_def demo_hash_def NPUBBYTES_def)

lemma demo_text_decode: "text_decode demo_env (map of_char s) = s"
proof -
  have "\<And>c. char_of (unat (of_char c :: 8 word)) = c"
  proof -
    fix c :: char
    have "unat (of_char c :: 8 word) = unat (of_nat (of_char c) :: 8 word)"
      by (simp only: of_nat_of_char)
    also have "\<dots> = of_char c mod 256" by (simp add: unat_of_nat)
    also have "\<dots> = of_char c" by simp
    finally show "char_of (unat (of_char c :: 8 word)) = c" by simp
  qed
  then show ?thesis by (simp add: demo_env_def comp_def)
qed

lemma js_string_json_parse_upd [simp]: "js_string (env\<lparr>json_parse := f\<rparr>) v = js_string env v"
  by (induction env v rule: js_string.induct) simp_all

lemma buildCapsuleTranscript_json_parse_upd [simp]:
  "buildCapsuleTranscript (env\<lparr>json_parse := f\<rparr>) p = buildCapsuleTranscript env p"
  by (simp add: buildCapsuleTranscript_def join_elem_def)

subsection \<open>C1: the epochs MlsGroup.loadGK installs\<close>

lemma loadGK_cases:
  "(loadGK env msg mySk g = Some ([], g)) \<or>
   (\<exists>g'. loadGK env msg mySk g = Some ([Ready], g') \<and>
      epoch g' = toInt32 (coerce_int32 env) (gk_e msg) \<and> wrap32 (epoch g) < epoch g')"
proof -
  let ?e = "toInt32 (coerce_int32 env) (gk_e msg)"
  show ?thesis
  proof (cases "addressed_elsewhere msg g \<or> ?e \<le> wrap32 (epoch g) \<or> snd (decryptGK env msg mySk ?e) = None")
    case True
    then show ?thesis by (auto simp: loadGK_def Let_def)
  next
    case False
    then obtain gk where gk: "snd (decryptGK env msg mySk ?e) = Some gk" by auto
    from flush_returns [of env "install gk ?e g"]
    obtain out' g' where f: "flush env (install gk ?e g) = Some (out', g')" and e: "epoch g' = epoch (install gk ?e g)"
      by blast
    from False gk f e show ?thesis
      by (simp add: loadGK_def Let_def install_def)
  qed
qed

lemma loadGK_run_sorted:
  "\<exists>es g'. loadGK_run env frames g = Some (es, g') \<and> sorted_wrt (<) (wrap32 (epoch g) # es)"
proof (induction frames arbitrary: g)
  case Nil
  show ?case by simp
next
  case (Cons f frames)
  obtain msg mySk where f: "f = (msg, mySk)" by (cases f)
  from loadGK_cases [of env msg mySk g]
  show ?case
  proof
    assume a: "loadGK env msg mySk g = Some ([], g)"
    from Cons.IH [of g] show ?thesis using a f by auto
  next
    assume "\<exists>g'. loadGK env msg mySk g = Some ([Ready], g') \<and>
      epoch g' = toInt32 (coerce_int32 env) (gk_e msg) \<and> wrap32 (epoch g) < epoch g'"
    then obtain g1 where a: "loadGK env msg mySk g = Some ([Ready], g1)"
      and e: "epoch g1 = toInt32 (coerce_int32 env) (gk_e msg)" and lt: "wrap32 (epoch g) < epoch g1"
      by blast
    have w: "wrap32 (epoch g1) = epoch g1"
      using e toInt32_range [of "coerce_int32 env" "gk_e msg"] by (simp add: wrap32_id)
    from Cons.IH [of g1] obtain es g' where
      r: "loadGK_run env frames g1 = Some (es, g')" and s: "sorted_wrt (<) (wrap32 (epoch g1) # es)"
      by blast
    from r s a f lt w show ?thesis by auto
  qed
qed

text \<open>
  C1. \<^verbatim>\<open>MlsGroup.loadGK\<close> compares \<^verbatim>\<open>theirE = msg.e | 0\<close> with
  \<^verbatim>\<open>me = this.epoch | 0\<close>. For every state and every \<^verbatim>\<open>gk\<close> frame, addressed to this
  member or not: when the frame's coerced epoch is at most the current epoch, the call
  returns with no event and the state as it was, so \<^verbatim>\<open>groupKey\<close>, \<^verbatim>\<open>epoch\<close>,
  \<^verbatim>\<open>sendSeq\<close> and \<^verbatim>\<open>recvSeq\<close> are unchanged. The current epoch is read through
  \<^verbatim>\<open>| 0\<close>, which is the epoch itself whenever it is a 32-bit integer, as it is after the
  constructor and after every install. Hence, over any sequence of calls, every call
  returns and the epochs of the calls that install a key are strictly increasing, the
  first of them above the epoch the sequence starts from.
\<close>

theorem loadGK_epoch_monotone:
  "(toInt32 (coerce_int32 env) (gk_e msg) \<le> wrap32 (epoch g) \<longrightarrow> loadGK env msg mySk g = Some ([], g))
   \<and> (int32 (epoch g) \<longrightarrow> wrap32 (epoch g) = epoch g)
   \<and> (\<exists>es g'. loadGK_run env frames g = Some (es, g') \<and> sorted_wrt (<) (wrap32 (epoch g) # es))"
proof (intro conjI impI)
  assume "toInt32 (coerce_int32 env) (gk_e msg) \<le> wrap32 (epoch g)"
  then show "loadGK env msg mySk g = Some ([], g)"
    by (simp add: loadGK_def Let_def)
next
  assume "int32 (epoch g)"
  then show "wrap32 (epoch g) = epoch g" by (rule wrap32_id)
next
  show "\<exists>es g'. loadGK_run env frames g = Some (es, g') \<and> sorted_wrt (<) (wrap32 (epoch g) # es)"
    by (rule loadGK_run_sorted)
qed

lemma demo_run: "map_option fst (loadGK_run demo_env demo_frames (demo_bob\<lparr>epoch := 3\<rparr>)) = Some [4, 5]"
  by code_simp

theorem loadGK_epoch_monotone_witness:
  "loadGK demo_env (demo_gk 2 JUndefined) demo_key (demo_bob\<lparr>epoch := 3\<rparr>) = Some ([], demo_bob\<lparr>epoch := 3\<rparr>)
   \<and> wrap32 (epoch (demo_bob\<lparr>epoch := 3\<rparr>)) = 3
   \<and> (\<exists>es g'. loadGK_run demo_env demo_frames (demo_bob\<lparr>epoch := 3\<rparr>) = Some (es, g')
         \<and> sorted_wrt (<) (3 # es))
   \<and> map_option fst (loadGK_run demo_env demo_frames (demo_bob\<lparr>epoch := 3\<rparr>)) = Some [4, 5]"
proof -
  have e: "toInt32 (coerce_int32 demo_env) (gk_e (demo_gk 2 JUndefined)) = 2"
    by (simp add: demo_gk_def wrap32_def)
  have w: "wrap32 (epoch (demo_bob\<lparr>epoch := 3\<rparr>)) = 3" "int32 (epoch (demo_bob\<lparr>epoch := 3\<rparr>))"
    by (simp_all add: wrap32_def int32_def)
  from loadGK_epoch_monotone [of demo_env "demo_gk 2 JUndefined" "demo_bob\<lparr>epoch := 3\<rparr>" demo_key demo_frames]
  show ?thesis using e w demo_run by simp
qed

subsection \<open>C2: role symmetry of the handshake\<close>

lemma buildTranscript_roles:
  "buildTranscript a b ''init'' room = buildTranscript b a ''resp'' room"
  by (simp add: buildTranscript_def)

text \<open>
  C2. Let \<open>a\<close> and \<open>b\<close> be two key records, \<open>pb\<close> the record \<open>a\<close> keeps of \<open>b\<close> and \<open>pa\<close>
  the record \<open>b\<close> keeps of \<open>a\<close>, each with the other's public keys. Let the two
  Diffie-Hellman products agree, let \<open>pa\<close> hold the ciphertext \<open>c\<close> that \<open>a\<close>'s
  encapsulation to \<open>b\<close> produces, let \<open>b\<close> decapsulate it to the same secret, and let
  \<open>a\<close>'s signing key be accepted. Then for every room string
  \<^verbatim>\<open>handshakeWith(pb, a, "init", room)\<close> and \<^verbatim>\<open>handshakeWith(pa, b, "resp", room)\<close> both
  return, with the same key of 32 bytes: the key derived from the two shared secrets and
  the transcript in INIT, RESP order.
\<close>

theorem handshake_role_symmetric:
  assumes pubsB: "pubs_peer pb = pubs_local b"
      and pubsA: "pubs_peer pa = pubs_local a"
      and ecdh: "crypto_scalarmult env (xPriv a) (xPub b) = Some z"
                "crypto_scalarmult env (xPriv b) (xPub a) = Some z"
      and encap: "kem_encap env (pqPub b) coins = Some (c, ss)"
      and decap: "kem_decap env c (pqPriv b) = Some ss"
      and ct: "p_ct pa = Some c"
      and sign: "\<forall>m. crypto_sign_detached env m (idPriv a) \<noteq> None"
      and hash: "hash_length env"
  shows "\<exists>k pb' pa'.
      handshakeWith env coins pb a ''init'' room = (Inr k, pb')
      \<and> p_ct pb' = Some c
      \<and> handshakeWith env coins' pa b ''resp'' room = (Inr k, pa')
      \<and> length k = 32
      \<and> k = deriveSharedKey env z ss (buildTranscript (pubs_local a) (pubs_local b) ''init'' room) room"
proof -
  from pubsB have pb: "p_idPub pb = idPub b" "p_xPub pb = xPub b" "p_pqPub pb = pqPub b"
    by (simp_all add: pubs_peer_def pubs_local_def)
  from pubsA have pa: "p_idPub pa = idPub a" "p_xPub pa = xPub a" "p_pqPub pa = pqPub a"
    by (simp_all add: pubs_peer_def pubs_local_def)
  let ?tr = "buildTranscript (pubs_local a) (pubs_local b) ''init'' room"
  let ?k = "deriveSharedKey env z ss ?tr room"
  from sign obtain sg where sg: "crypto_sign_detached env ?tr (idPriv a) = Some sg" by auto
  have tr1: "buildTranscript (pubs_local a) (pubs_peer (pb\<lparr>p_ct := Some c\<rparr>)) ''init'' room = ?tr"
    using pubsB by (simp add: pubs_peer_def)
  have i: "handshakeWith env coins pb a ''init'' room
      = (Inr ?k, pb\<lparr>p_ct := Some c, p_sig := Some sg, p_sas := Some (fp4 env ?tr)\<rparr>)"
    using ecdh(1) encap sg by (simp add: handshakeWith_def pb tr1 Let_def)
  have tr2: "buildTranscript (pubs_local b) (pubs_peer pa) ''resp'' room = ?tr"
    by (simp add: pubsA buildTranscript_roles)
  have r: "\<exists>pa'. handshakeWith env coins' pa b ''resp'' room = (Inr ?k, pa')"
    using ecdh(2) decap ct by (simp add: handshakeWith_def pa tr2 Let_def split: option.splits)
  have len: "length ?k = 32"
    using hash by (simp add: deriveSharedKey_def hkdfExpand_def Let_def hash_length_def)
  from i r len show ?thesis by auto
qed

theorem handshake_role_symmetric_witness:
  "\<exists>k pb' pa'.
      handshakeWith demo_env [7] (peer_of demo_bob_keys None) demo_alice ''init'' ''r1'' = (Inr k, pb')
      \<and> p_ct pb' = Some [12]
      \<and> handshakeWith demo_env [] (peer_of demo_alice (Some [12])) demo_bob_keys ''resp'' ''r1'' = (Inr k, pa')
      \<and> length k = 32"
proof -
  have pubs: "pubs_peer (peer_of demo_bob_keys None) = pubs_local demo_bob_keys"
    "pubs_peer (peer_of demo_alice (Some [12])) = pubs_local demo_alice"
    by (simp_all add: pubs_peer_def pubs_local_def peer_of_def)
  have ecdh: "crypto_scalarmult demo_env (xPriv demo_alice) (xPub demo_bob_keys) = Some [217]"
    "crypto_scalarmult demo_env (xPriv demo_bob_keys) (xPub demo_alice) = Some [217]"
    by (simp_all add: demo_env_def demo_alice_def demo_bob_keys_def)
  have kem: "kem_encap demo_env (pqPub demo_bob_keys) [7] = Some ([12], [7])"
    "kem_decap demo_env [12] (pqPriv demo_bob_keys) = Some [7]"
    by (simp_all add: demo_env_def demo_bob_keys_def)
  have ct: "p_ct (peer_of demo_alice (Some [12])) = Some [12]" by (simp add: peer_of_def)
  have sg: "\<forall>m. crypto_sign_detached demo_env m (idPriv demo_alice) \<noteq> None"
    by (simp add: demo_env_def)
  from handshake_role_symmetric [OF pubs ecdh kem ct sg demo_contracts(2), where coins' = "[]" and room = "''r1''"]
  show ?thesis by blast
qed

subsection \<open>C3: replay rejection in Group.decrypt\<close>

lemma decrypt_accepts:
  "decrypt env msg g = (Some tx, g1) \<Longrightarrow>
     recvSeq g1 (cid_key msg) = Some (toInt32 (coerce_int32 env) (m_s msg))
     \<and> last_seq g (cid_key msg) < toInt32 (coerce_int32 env) (m_s msg)
     \<and> toInt32 (coerce_int32 env) (m_e msg) = wrap32 (epoch g)
     \<and> groupKey g \<noteq> None"
  by (auto simp: decrypt_def Let_def split: option.splits if_splits)

lemma decrypt_recvSeq_mono:
  "decrypt env m g = (r, g') \<Longrightarrow> recvSeq g c = Some s \<Longrightarrow> \<exists>s'. recvSeq g' c = Some s' \<and> s \<le> s'"
  by (auto simp: decrypt_def Let_def last_seq_def split: option.splits if_splits)

lemma flush_loop_mono:
  "groupKey g \<noteq> None \<Longrightarrow> pending g = ps \<Longrightarrow> flush_loop env rest out g = Some (out', g') \<Longrightarrow>
   recvSeq g c = Some s \<Longrightarrow> \<exists>s'. recvSeq g' c = Some s' \<and> s \<le> s'"
proof (induction ps arbitrary: g rest out s)
  case Nil
  from Nil.prems(2,3) have "recvSeq g' = recvSeq g"
    by (subst (asm) flush_loop.simps) (auto split: if_splits)
  with Nil.prems(4) show ?case by simp
next
  case (Cons m ms)
  obtain r g1 where d: "decrypt env m (g\<lparr>pending := ms\<rparr>) = (r, g1)"
    by (cases "decrypt env m (g\<lparr>pending := ms\<rparr>)")
  from decrypt_keeps [OF d] decrypt_pending [OF d] Cons.prems(1)
  have k: "pending g1 = ms" "groupKey g1 \<noteq> None" by simp_all
  from decrypt_recvSeq_mono [OF d, of c s] Cons.prems(4)
  obtain s1 where s1: "recvSeq g1 c = Some s1" "s \<le> s1" by auto
  define rest' where
    "rest' = (if toInt32 (coerce_int32 env) (m_e m) > wrap32 (epoch g1) then rest @ [m] else rest)"
  define out1 where "out1 = (case r of None \<Rightarrow> out | Some tx \<Rightarrow> out @ [tx])"
  define rest1 where "rest1 = (case r of None \<Rightarrow> rest' | Some tx \<Rightarrow> rest)"
  have "flush_loop env rest out g = flush_loop env rest1 out1 g1"
    using Cons.prems(2) d by (subst flush_loop.simps) (simp add: rest'_def out1_def rest1_def split: option.splits)
  with Cons.prems(3) have f: "flush_loop env rest1 out1 g1 = Some (out', g')" by simp
  from Cons.IH [OF k(2) k(1) f s1(1)] obtain s' where "recvSeq g' c = Some s'" "s1 \<le> s'" by blast
  with s1(2) show ?case by auto
qed

lemma call_step_keeps:
  "call_step env cl g = Some g' \<Longrightarrow> groupKey g' = groupKey g \<and> epoch g' = epoch g"
proof (cases cl)
  case (Decrypt m)
  assume "call_step env cl g = Some g'"
  with Decrypt have "decrypt env m g = (fst (decrypt env m g), g')" by auto
  from decrypt_keeps [OF this] show ?thesis by simp
next
  case (Encrypt tx)
  assume "call_step env cl g = Some g'"
  with Encrypt show ?thesis
    by (auto simp: encrypt_def Let_def split: option.splits)
next
  case Flush
  assume "call_step env cl g = Some g'"
  with Flush flush_returns [of env g] show ?thesis by auto
next
  case (AddPeer c sk)
  assume "call_step env cl g = Some g'"
  with AddPeer show ?thesis by (auto simp: addPeer_def)
qed

lemma call_step_mono:
  "call_step env cl g = Some g' \<Longrightarrow> recvSeq g c = Some s \<Longrightarrow> \<exists>s'. recvSeq g' c = Some s' \<and> s \<le> s'"
proof (cases cl)
  case (Decrypt m)
  assume st: "call_step env cl g = Some g'" and r: "recvSeq g c = Some s"
  from st Decrypt have "decrypt env m g = (fst (decrypt env m g), g')" by auto
  from decrypt_recvSeq_mono [OF this r] show ?thesis .
next
  case (Encrypt tx)
  assume "call_step env cl g = Some g'" "recvSeq g c = Some s"
  with Encrypt show ?thesis
    by (auto simp: encrypt_def Let_def split: option.splits)
next
  case Flush
  assume st: "call_step env cl g = Some g'" and r: "recvSeq g c = Some s"
  show ?thesis
  proof (cases "groupKey g")
    case None
    with st Flush r show ?thesis by (auto simp: flush_def)
  next
    case (Some key)
    with st Flush obtain out' where "flush_loop env [] [] g = Some (out', g')"
      by (auto simp: flush_def)
    from flush_loop_mono [OF _ refl this r] Some show ?thesis by simp
  qed
next
  case (AddPeer p sk)
  assume "call_step env cl g = Some g'" "recvSeq g c = Some s"
  with AddPeer show ?thesis by (auto simp: addPeer_def)
qed

lemma call_step_returns: "\<exists>g'. call_step env cl g = Some g'"
proof (cases cl)
  case Flush
  with flush_returns [of env g] show ?thesis by auto
qed simp_all

lemma calls_run_returns:
  "\<exists>g'. calls_run env cs g = Some g' \<and> groupKey g' = groupKey g \<and> epoch g' = epoch g \<and>
      (\<forall>c s. recvSeq g c = Some s \<longrightarrow> (\<exists>s'. recvSeq g' c = Some s' \<and> s \<le> s'))"
proof (induction cs arbitrary: g)
  case Nil
  show ?case by simp
next
  case (Cons cl cs)
  from call_step_returns [of env cl g] obtain g1 where st: "call_step env cl g = Some g1" by blast
  from Cons.IH [of g1] obtain g' where r: "calls_run env cs g1 = Some g'"
    and k: "groupKey g' = groupKey g1" "epoch g' = epoch g1"
    and m: "\<forall>c s. recvSeq g1 c = Some s \<longrightarrow> (\<exists>s'. recvSeq g' c = Some s' \<and> s \<le> s')"
    by blast
  have "\<forall>c s. recvSeq g c = Some s \<longrightarrow> (\<exists>s'. recvSeq g' c = Some s' \<and> s \<le> s')"
  proof (intro allI impI)
    fix c s
    assume "recvSeq g c = Some s"
    from call_step_mono [OF st this] obtain s1 where s1: "recvSeq g1 c = Some s1" "s \<le> s1" by blast
    with m obtain s' where "recvSeq g' c = Some s'" "s1 \<le> s'" by blast
    with s1(2) show "\<exists>s'. recvSeq g' c = Some s' \<and> s \<le> s'" by auto
  qed
  with st r k call_step_keeps [OF st] show ?case by simp
qed

lemma decrypt_replay:
  "groupKey g \<noteq> None \<Longrightarrow> recvSeq g (cid_key m) = Some s \<Longrightarrow>
   toInt32 (coerce_int32 env) (m_s m) \<le> s \<Longrightarrow> decrypt env m g = (None, g)"
  by (auto simp: decrypt_def Let_def last_seq_def split: option.splits)

lemma cid_key_value: "\<not> is_ref (m_cid m) \<Longrightarrow> m_cid m' = m_cid m \<Longrightarrow> cid_key m' = cid_key m"
  by (simp add: cid_key_def)

lemma demo_accepts_array:
  "recvSeq g (Ref a) = None \<Longrightarrow> groupKey g = Some demo_group_key \<Longrightarrow> epoch g = 1 \<Longrightarrow>
   decrypt demo_env (demo_array_m a) g = (Some ''hi'', g\<lparr>recvSeq := (recvSeq g)(Ref a \<mapsto> 5)\<rparr>)"
  by (simp add: decrypt_def demo_array_m_def last_seq_def cid_key_def nonce_def wrap32_def
      demo_u8_seal demo_u8_str demo_open demo_to_string_hi)

lemma demo_accepts_host:
  "decrypt demo_env (demo_m 5 ''hi'') demo_keyed = (Some ''hi'', demo_keyed\<lparr>recvSeq := [Prim (JStr ''host'') \<mapsto> 5]\<rparr>)"
  by (simp add: decrypt_def demo_m_def demo_keyed_def Group_new_def last_seq_def cid_key_def nonce_def
      wrap32_def demo_u8_seal demo_u8_str demo_open demo_to_string_hi)

lemma demo_reinstall:
  "Group_loadGK demo_env (demo_gk 1 JUndefined) demo_key (demo_keyed\<lparr>recvSeq := [Prim (JStr ''host'') \<mapsto> 5]\<rparr>)
     = Some ([Ready], demo_keyed)"
proof -
  let ?g = "demo_keyed\<lparr>recvSeq := [Prim (JStr ''host'') \<mapsto> 5]\<rparr>"
  have self: "\<not> addressed_elsewhere (demo_gk 1 JUndefined) ?g"
    by (simp add: addressed_elsewhere_def demo_gk_def demo_keyed_def Group_new_def)
  have e: "toInt32 (coerce_int32 demo_env) (gk_e (demo_gk 1 JUndefined)) = 1"
    by (simp add: demo_gk_def wrap32_def)
  have a: "aad demo_env ''gk'' (JStr (gk_cid (demo_gk 1 JUndefined))) 0 1 = aadGK ''host'' 1 None"
    by (simp add: aad_JStr aadGK_def demo_gk_def)
  have ek: "u8 demo_env (gk_ek (demo_gk 1 JUndefined))
      = Some (replicate 32 9 @ [demo_tag (aadGK ''host'' 1 None) (map of_char ''n'') demo_key])"
    by (simp add: demo_gk_def demo_u8_seal)
  have n: "u8 demo_env (gk_n (demo_gk 1 JUndefined)) = Some (map of_char ''n'')"
    by (simp add: demo_gk_def demo_u8_str)
  have i: "install (replicate 32 9) 1 ?g = demo_keyed"
    by (simp add: install_def demo_keyed_def Group_new_def demo_group_key_def)
  have "pending demo_keyed = []" by (simp add: demo_keyed_def Group_new_def)
  then have f: "flush demo_env demo_keyed = Some ([], demo_keyed)" by (rule flush_no_pending)
  from self show ?thesis
    by (simp add: Group_loadGK_def e a ek n demo_open i f)
qed

text \<open>
  C3 as stated fails, in two ways. A member that names itself by an array is looked up
  in \<^verbatim>\<open>recvSeq\<close> by the identity of that array: the frame text of
  \<open>demo_array_m\<close>, parsed at address 1 and accepted, is accepted again when it arrives
  a second time and is parsed at address 2. And \<^verbatim>\<open>Group.loadGK\<close>, which compares no
  epochs, empties \<^verbatim>\<open>recvSeq\<close>: after the \<^verbatim>\<open>gk\<close> frame of the current epoch 1 has been
  loaded once more, the frame of the string sender \<^verbatim>\<open>host\<close> with sequence 5, accepted
  before, is accepted again in the same epoch.
\<close>

theorem decrypt_replay_accepted:
  "decrypt demo_env (demo_array_m 1) demo_keyed = (Some ''hi'', demo_keyed\<lparr>recvSeq := [Ref 1 \<mapsto> 5]\<rparr>)
   \<and> demo_array_m 2 = (demo_array_m 1)\<lparr>m_cid_at := 2\<rparr>
   \<and> decrypt demo_env (demo_array_m 2) (demo_keyed\<lparr>recvSeq := [Ref 1 \<mapsto> 5]\<rparr>)
       = (Some ''hi'', demo_keyed\<lparr>recvSeq := [Ref 1 \<mapsto> 5, Ref 2 \<mapsto> 5]\<rparr>)
   \<and> decrypt demo_env (demo_m 5 ''hi'') demo_keyed
       = (Some ''hi'', demo_keyed\<lparr>recvSeq := [Prim (JStr ''host'') \<mapsto> 5]\<rparr>)
   \<and> Group_loadGK demo_env (demo_gk 1 JUndefined) demo_key (demo_keyed\<lparr>recvSeq := [Prim (JStr ''host'') \<mapsto> 5]\<rparr>)
       = Some ([Ready], demo_keyed)
   \<and> epoch demo_keyed = 1"
proof -
  have k: "groupKey demo_keyed = Some demo_group_key" "epoch demo_keyed = 1" "recvSeq demo_keyed = Map.empty"
    by (simp_all add: demo_keyed_def Group_new_def)
  have one: "decrypt demo_env (demo_array_m 1) demo_keyed = (Some ''hi'', demo_keyed\<lparr>recvSeq := [Ref 1 \<mapsto> 5]\<rparr>)"
    using demo_accepts_array [of demo_keyed 1] k by simp
  have two: "decrypt demo_env (demo_array_m 2) (demo_keyed\<lparr>recvSeq := [Ref 1 \<mapsto> 5]\<rparr>)
       = (Some ''hi'', demo_keyed\<lparr>recvSeq := [Ref 1 \<mapsto> 5, Ref 2 \<mapsto> 5]\<rparr>)"
    using demo_accepts_array [of "demo_keyed\<lparr>recvSeq := [Ref 1 \<mapsto> 5]\<rparr>" 2] k by simp
  have same: "demo_array_m 2 = (demo_array_m 1)\<lparr>m_cid_at := 2\<rparr>"
    by (simp add: demo_array_m_def)
  from one two same demo_accepts_host demo_reinstall k(2) show ?thesis by simp
qed

text \<open>
  C3, as amended. Replay rejection in \<^verbatim>\<open>Group.decrypt\<close>, for a sender id that is not
  an array or object (a string, as the protocol has it, or another primitive value).
  When \<^verbatim>\<open>decrypt\<close> accepts a frame \<open>msg\<close> (returns its text), the state had a group
  key, the frame's sequence \<^verbatim>\<open>msg.s | 0\<close> was above \<^verbatim>\<open>recvSeq[cid] ?? -1\<close>, its epoch
  \<^verbatim>\<open>msg.e | 0\<close> was the current epoch, and \<^verbatim>\<open>recvSeq[cid]\<close> is now that sequence. After
  any further calls that install no key (\<open>between\<close>: calls of \<^verbatim>\<open>decrypt\<close>,
  \<^verbatim>\<open>encrypt\<close>, \<^verbatim>\<open>flush\<close> and \<^verbatim>\<open>addPeer\<close>), which all return and do not change the
  epoch, a frame of the same sender whose sequence is not above the accepted one is
  dropped: \<^verbatim>\<open>decrypt\<close> returns \<^verbatim>\<open>null\<close> and the whole state, so \<^verbatim>\<open>recvSeq\<close>,
  \<^verbatim>\<open>groupKey\<close> and \<^verbatim>\<open>epoch\<close>, is unchanged.
\<close>

theorem decrypt_rejects_replay:
  assumes acc: "decrypt env msg g = (Some tx, g1)"
      and prim: "\<not> is_ref (m_cid msg)"
      and same: "m_cid msg' = m_cid msg"
      and seq: "toInt32 (coerce_int32 env) (m_s msg') \<le> toInt32 (coerce_int32 env) (m_s msg)"
  shows "recvSeq g1 (Prim (m_cid msg)) = Some (toInt32 (coerce_int32 env) (m_s msg))
     \<and> last_seq g (Prim (m_cid msg)) < toInt32 (coerce_int32 env) (m_s msg)
     \<and> toInt32 (coerce_int32 env) (m_e msg) = wrap32 (epoch g)
     \<and> groupKey g \<noteq> None
     \<and> (\<exists>g2. calls_run env between g1 = Some g2
            \<and> epoch g2 = epoch g
            \<and> decrypt env msg' g2 = (None, g2))"
proof -
  let ?s = "toInt32 (coerce_int32 env) (m_s msg)"
  from prim have key: "cid_key msg = Prim (m_cid msg)" by (simp add: cid_key_def)
  from cid_key_value [OF prim same] have key': "cid_key msg' = cid_key msg" .
  from decrypt_accepts [OF acc]
  have a: "recvSeq g1 (cid_key msg) = Some ?s" "last_seq g (cid_key msg) < ?s"
    "toInt32 (coerce_int32 env) (m_e msg) = wrap32 (epoch g)" "groupKey g \<noteq> None"
    by simp_all
  from decrypt_keeps [OF acc] a(4) have k1: "groupKey g1 \<noteq> None" "epoch g1 = epoch g" by simp_all
  from calls_run_returns [of env between g1] a(1)
  obtain g2 s' where r: "calls_run env between g1 = Some g2"
    and k2: "groupKey g2 = groupKey g1" "epoch g2 = epoch g1"
    and s': "recvSeq g2 (cid_key msg) = Some s'" "?s \<le> s'"
    by blast
  have "decrypt env msg' g2 = (None, g2)"
    using decrypt_replay [of g2 msg' s' env] k1(1) k2(1) s' key' seq by simp
  with a k1 k2 r key show ?thesis by simp
qed

theorem decrypt_rejects_replay_witness:
  "decrypt demo_env (demo_m 5 ''hi'') demo_keyed = (Some ''hi'', demo_keyed\<lparr>recvSeq := [Prim (JStr ''host'') \<mapsto> 5]\<rparr>)
   \<and> (\<exists>g2. calls_run demo_env [Decrypt (demo_m 7 ''hi''), Encrypt ''yo'', Flush]
              (demo_keyed\<lparr>recvSeq := [Prim (JStr ''host'') \<mapsto> 5]\<rparr>) = Some g2
          \<and> epoch g2 = 1
          \<and> decrypt demo_env (demo_m 3 ''hi'') g2 = (None, g2))"
proof -
  note acc = demo_accepts_host
  have prim: "\<not> is_ref (m_cid (demo_m 5 ''hi''))" by (simp add: demo_m_def)
  have same: "m_cid (demo_m 3 ''hi'') = m_cid (demo_m 5 ''hi'')" by (simp add: demo_m_def)
  have seq: "toInt32 (coerce_int32 demo_env) (m_s (demo_m 3 ''hi'')) \<le> toInt32 (coerce_int32 demo_env) (m_s (demo_m 5 ''hi''))"
    by (simp add: demo_m_def wrap32_def)
  have e: "epoch demo_keyed = 1" by (simp add: demo_keyed_def)
  from decrypt_rejects_replay [OF acc prim same seq, of "[Decrypt (demo_m 7 ''hi''), Encrypt ''yo'', Flush]"] acc e
  show ?thesis by simp
qed

subsection \<open>C4: the size of a capsule\<close>

lemma pad_target_range:
  assumes "0 \<le> rnd" "rnd < 1"
  shows "PAD_MIN \<le> pad_target rnd \<and> pad_target rnd \<le> PAD_MAX"
proof -
  have "0 \<le> rnd * 513" using assms by simp
  then have lo: "0 \<le> \<lfloor>rnd * 513\<rfloor>" by simp
  have "rnd * 513 < 513" using assms by simp
  then have "\<lfloor>rnd * 513\<rfloor> < 513" by (simp add: floor_less_iff)
  with lo show ?thesis by (simp add: pad_target_def PAD_MIN_def PAD_MAX_def)
qed

lemma length_randomPad: "length (randomPad n r) = n"
  by (simp add: randomPad_def randombytes_buf_def)

lemma randomPad_printable:
  "ch \<in> set (randomPad n r) \<Longrightarrow> 33 \<le> (of_char ch :: nat) \<and> (of_char ch :: nat) \<le> 126"
proof -
  assume "ch \<in> set (randomPad n r)"
  then obtain v :: "8 word" where ch: "ch = char_of (33 + unat v mod 94)"
    by (auto simp: randomPad_def)
  have "unat v mod 94 < 94" by simp
  then have b: "33 + unat v mod 94 < 127" by linarith
  then have "(33 + unat v mod 94) mod 256 = 33 + unat v mod 94" by simp
  then have "(of_char ch :: nat) = 33 + unat v mod 94" by (simp add: ch)
  with b show ?thesis by simp
qed

lemma stringify_body_pad:
  "stringify env (JObj (capsule_body now room xp pqp c idpub sg @ [(''pad'', JStr p)])) =
     json_object (map (\<lambda>(k, v). (k, stringify env v)) (capsule_body now room xp pqp c idpub sg)
                  @ [(''pad'', json_string p)])"
  by (simp add: capsule_body_def)

lemma stringify_body:
  "stringify env (JObj (capsule_body now room xp pqp c idpub sg)) =
     json_object (map (\<lambda>(k, v). (k, stringify env v)) (capsule_body now room xp pqp c idpub sg))"
  by (simp add: capsule_body_def)

lemma length_json_pad: "length (json_string ''pad'') = 5"
  by (simp add: json_string_def json_escape_def)

lemma padded_length:
  "length p + 9 + length (stringify env (JObj (capsule_body now room xp pqp c idpub sg)))
     \<le> length (stringify env (JObj (capsule_body now room xp pqp c idpub sg @ [(''pad'', JStr p)])))"
proof -
  let ?kvs = "map (\<lambda>(k, v). (k, stringify env v)) (capsule_body now room xp pqp c idpub sg)"
  have ne: "?kvs \<noteq> []" by (simp add: capsule_body_def)
  from length_json_object_snoc [OF ne, of "''pad''" "json_string p"]
  have "length (json_object (?kvs @ [(''pad'', json_string p)]))
      = length (json_object ?kvs) + 5 + length (json_string p) + 2"
    by (simp only: length_json_pad)
  with length_json_string [of p] show ?thesis
    unfolding stringify_body_pad stringify_body by linarith
qed

lemma capsule_json_length:
  assumes "0 \<le> rnd" "rnd < 1"
  shows "pad_target rnd
      \<le> int (length (stringify env (JObj (pad_capsule env rnd r (capsule_body now room xp pqp c idpub sg)))))
    \<and> (int (length (stringify env (JObj (capsule_body now room xp pqp c idpub sg)))) < pad_target rnd
        \<longrightarrow> pad_target rnd + 9
           \<le> int (length (stringify env (JObj (pad_capsule env rnd r (capsule_body now room xp pqp c idpub sg))))))"
proof -
  let ?body = "capsule_body now room xp pqp c idpub sg"
  let ?L = "length (stringify env (JObj ?body))"
  let ?T = "pad_target rnd"
  show ?thesis
  proof (cases "int ?L < ?T")
    case True
    let ?p = "randomPad (nat (?T - int ?L)) r"
    have p: "pad_capsule env rnd r ?body = ?body @ [(''pad'', JStr ?p)]"
      using True by (simp add: pad_capsule_def Let_def)
    have "length ?p = nat (?T - int ?L)" by (rule length_randomPad)
    with padded_length [of ?p env now room xp pqp c idpub sg] True
    have "?T + 9 \<le> int (length (stringify env (JObj (?body @ [(''pad'', JStr ?p)]))))"
      by linarith
    with p True show ?thesis by simp
  next
    case False
    then have "pad_capsule env rnd r ?body = ?body" by (simp add: pad_capsule_def Let_def)
    with False show ?thesis by simp
  qed
qed

lemma createCapsule_result:
  "crypto_sign_detached env (buildCapsuleTranscript env (JObj (capsule_payload now room xp pqp c))) idpriv = Some sg
   \<Longrightarrow> createCapsule env now rnd r room xp pqp c idpriv idpub =
         Inr (b64 (utf8 (stringify env (JObj (pad_capsule env rnd r (capsule_body now room xp pqp c idpub sg))))))"
  by (simp add: createCapsule_def Let_def)

lemma body_length_ge_key:
  "length (b64 pqp) \<le> length (stringify env (JObj (capsule_body now room xp pqp c idpub sg)))"
proof -
  have "length (b64 pqp) + 2 \<le> length (json_string (b64 pqp))" by (rule length_json_string)
  then show ?thesis
    by (simp add: capsule_body_def capsule_payload_def json_object_def del: js_string.simps)
qed

lemma big_key_no_pad:
  assumes rnd: "0 \<le> rnd" "rnd < 1" and big: "800 \<le> length pqp"
  shows "pad_capsule env rnd r (capsule_body now room xp pqp c idpub sg) = capsule_body now room xp pqp c idpub sg
     \<and> 1024 < length (b64 (utf8 (stringify env (JObj (capsule_body now room xp pqp c idpub sg)))))"
proof -
  let ?body = "capsule_body now room xp pqp c idpub sg"
  let ?json = "stringify env (JObj ?body)"
  have "(800 + 2) div 3 \<le> (length pqp + 2) div 3" using big by (intro div_le_mono) simp
  then have "1068 \<le> length (b64 pqp)" by (simp add: length_b64)
  with body_length_ge_key [of pqp env now room xp c idpub sg] have l: "1068 \<le> length ?json" by linarith
  with pad_target_range [OF rnd] have "\<not> 0 < pad_target rnd - int (length ?json)"
    by (simp add: PAD_MAX_def)
  then have p: "pad_capsule env rnd r ?body = ?body" by (simp add: pad_capsule_def Let_def)
  from l length_utf8 [of ?json] have "1068 \<le> length (utf8 ?json)" by linarith
  from b64_length_ge [OF this] have "1024 < length (b64 (utf8 ?json))" by simp
  with p show ?thesis by simp
qed

text \<open>
  What \<^verbatim>\<open>createCapsule\<close> returns in general, for \<^verbatim>\<open>Math.random()\<close> in \<open>[0, 1)\<close> and a
  signing call that returns: the target \<open>512 + \<lfloor>rnd * 513\<rfloor>\<close> lies in \<open>[512, 1024]\<close>; the
  \<^verbatim>\<open>pad\<close> field is added exactly when the JSON text of the capsule has fewer characters
  than the target, and then holds target minus length characters, each with a code in
  \<open>[33, 126]\<close>; the result is the base64 of the UTF-8 bytes of the JSON text of the capsule
  so padded, whose length is \<open>4 * \<lceil>n / 3\<rceil>\<close> for \<open>n\<close> bytes. With a \<^verbatim>\<open>pqPub\<close> of 800 bytes
  or more no pad is added and the result has more than 1024 characters.
\<close>

lemma createCapsule_size:
  assumes rnd: "0 \<le> rnd" "rnd < 1"
      and sign: "crypto_sign_detached env (buildCapsuleTranscript env (JObj (capsule_payload now room xp pqp c))) idpriv = Some sg"
      and body: "body = capsule_body now room xp pqp c idpub sg"
      and json: "json = stringify env (JObj (pad_capsule env rnd r body))"
  shows "PAD_MIN \<le> pad_target rnd \<and> pad_target rnd \<le> PAD_MAX
     \<and> pad_capsule env rnd r body =
         (if int (length (stringify env (JObj body))) < pad_target rnd
          then body @ [(''pad'', JStr (randomPad (nat (pad_target rnd - int (length (stringify env (JObj body))))) r))]
          else body)
     \<and> length (randomPad (nat (pad_target rnd - int (length (stringify env (JObj body))))) r)
         = nat (pad_target rnd - int (length (stringify env (JObj body))))
     \<and> (\<forall>ch \<in> set (randomPad (nat (pad_target rnd - int (length (stringify env (JObj body))))) r).
           33 \<le> (of_char ch :: nat) \<and> (of_char ch :: nat) \<le> 126)
     \<and> createCapsule env now rnd r room xp pqp c idpriv idpub = Inr (b64 (utf8 json))
     \<and> length (b64 (utf8 json)) = 4 * ((length (utf8 json) + 2) div 3)
     \<and> pad_target rnd \<le> int (length json)
     \<and> (int (length (stringify env (JObj body))) < pad_target rnd \<longrightarrow> pad_target rnd + 9 \<le> int (length json))
     \<and> 684 \<le> length (b64 (utf8 json))
     \<and> (800 \<le> length pqp \<longrightarrow> pad_capsule env rnd r body = body \<and> 1024 < length (b64 (utf8 json)))"
proof -
  let ?B = "capsule_body now room xp pqp c idpub sg"
  let ?L = "length (stringify env (JObj ?B))"
  let ?T = "pad_target rnd"
  let ?J = "stringify env (JObj (pad_capsule env rnd r ?B))"
  let ?pad = "randomPad (nat (?T - int ?L)) r"
  note range = pad_target_range [OF rnd]
  note len = capsule_json_length [OF rnd, of env r now room xp pqp c idpub sg]
  have p: "pad_capsule env rnd r ?B = (if int ?L < ?T then ?B @ [(''pad'', JStr ?pad)] else ?B)"
    by (simp add: pad_capsule_def Let_def)
  have lr: "length ?pad = nat (?T - int ?L)" by (rule length_randomPad)
  have pr: "\<forall>ch \<in> set ?pad. 33 \<le> (of_char ch :: nat) \<and> (of_char ch :: nat) \<le> 126"
    using randomPad_printable by blast
  have res: "createCapsule env now rnd r room xp pqp c idpriv idpub = Inr (b64 (utf8 ?J))"
    by (rule createCapsule_result [OF sign])
  have lb: "length (b64 (utf8 ?J)) = 4 * ((length (utf8 ?J) + 2) div 3)" by (rule length_b64)
  have "512 \<le> int (length ?J)" using range len by (simp add: PAD_MIN_def)
  then have "512 \<le> length (utf8 ?J)" using length_utf8 [of ?J] by linarith
  from b64_length_ge [OF this] have big: "684 \<le> length (b64 (utf8 ?J))" by simp
  have key: "800 \<le> length pqp \<longrightarrow> pad_capsule env rnd r ?B = ?B \<and> 1024 < length (b64 (utf8 ?J))"
    using big_key_no_pad [OF rnd, of pqp env r now room xp c idpub sg] by simp
  from range p lr pr res lb len big key show ?thesis
    unfolding json body by blast
qed

text \<open>
  C4. \<^verbatim>\<open>createCapsule\<close> on keys of the real sizes: a 32-byte X25519 key, the 800-byte
  public key of ML-KEM-512, a 64-byte signing key and its 32-byte public key. The call
  returns a string of more than 1024 characters; no \<^verbatim>\<open>pad\<close> field is added; and the
  result is the same string for \<^verbatim>\<open>Math.random()\<close> at 0 and at 3/4. The target that is
  drawn in \<open>[512, 1024]\<close> is compared with the length of the JSON text, and the key alone
  makes that text longer than any target: the length of a capsule is then neither random
  nor within \<open>[512, 1024]\<close>.
\<close>

theorem createCapsule_exceeds_1024:
  "\<not> isl (createCapsule demo_env 1700000000000 (3 / 4) demo_rng ''r1'' (replicate 32 1) (replicate 800 2)
            ''host'' (replicate 64 3) (replicate 32 4))
   \<and> 1024 < length (projr (createCapsule demo_env 1700000000000 (3 / 4) demo_rng ''r1'' (replicate 32 1)
            (replicate 800 2) ''host'' (replicate 64 3) (replicate 32 4)))
   \<and> createCapsule demo_env 1700000000000 0 demo_rng ''r1'' (replicate 32 1) (replicate 800 2)
            ''host'' (replicate 64 3) (replicate 32 4)
       = createCapsule demo_env 1700000000000 (3 / 4) demo_rng ''r1'' (replicate 32 1) (replicate 800 2)
            ''host'' (replicate 64 3) (replicate 32 4)
   \<and> createCapsule demo_env 1700000000000 (3 / 4) demo_rng ''r1'' (replicate 32 1) (replicate 800 2)
            ''host'' (replicate 64 3) (replicate 32 4)
       = Inr (b64 (utf8 (stringify demo_env (JObj (capsule_body 1700000000000 ''r1'' (replicate 32 1)
            (replicate 800 2) ''host'' (replicate 32 4)
            (replicate 64 (sum_list (buildCapsuleTranscript demo_env
                 (JObj (capsule_payload 1700000000000 ''r1'' (replicate 32 1) (replicate 800 2) ''host'')))
               + sum_list (replicate 64 3))))))))"
proof -
  let ?now = "1700000000000 :: int"
  let ?tr = "buildCapsuleTranscript demo_env (JObj (capsule_payload ?now ''r1'' (replicate 32 1) (replicate 800 2) ''host''))"
  let ?sg = "replicate 64 (sum_list ?tr + sum_list (replicate 64 3)) :: bytes"
  let ?body = "capsule_body ?now ''r1'' (replicate 32 1) (replicate 800 2) ''host'' (replicate 32 4) ?sg"
  have sign: "crypto_sign_detached demo_env ?tr (replicate 64 3) = Some ?sg"
    by (simp add: demo_env_def)
  have big: "800 \<le> length (replicate 800 2 :: bytes)" by simp
  have r0: "0 \<le> (0 :: rat)" "(0 :: rat) < 1" by simp_all
  have r1: "0 \<le> (3 / 4 :: rat)" "(3 / 4 :: rat) < 1" by simp_all
  from big_key_no_pad [OF r0 big, of demo_env demo_rng ?now "''r1''" "replicate 32 1" "''host''" "replicate 32 4" ?sg]
  have p0: "pad_capsule demo_env 0 demo_rng ?body = ?body" by simp
  from big_key_no_pad [OF r1 big, of demo_env demo_rng ?now "''r1''" "replicate 32 1" "''host''" "replicate 32 4" ?sg]
  have p1: "pad_capsule demo_env (3 / 4) demo_rng ?body = ?body"
    and l: "1024 < length (b64 (utf8 (stringify demo_env (JObj ?body))))" by simp_all
  from createCapsule_result [OF sign, of 0 demo_rng "replicate 32 4"] p0
  have c0: "createCapsule demo_env ?now 0 demo_rng ''r1'' (replicate 32 1) (replicate 800 2)
      ''host'' (replicate 64 3) (replicate 32 4) = Inr (b64 (utf8 (stringify demo_env (JObj ?body))))"
    by (simp only:)
  from createCapsule_result [OF sign, of "3 / 4" demo_rng "replicate 32 4"] p1
  have c1: "createCapsule demo_env ?now (3 / 4) demo_rng ''r1'' (replicate 32 1) (replicate 800 2)
      ''host'' (replicate 64 3) (replicate 32 4) = Inr (b64 (utf8 (stringify demo_env (JObj ?body))))"
    by (simp only:)
  from l show ?thesis unfolding c0 c1 by simp
qed

subsection \<open>C5: MlsGroup.rekey\<close>








subsection \<open>C6: the two attempts of MlsGroup.loadGK\<close>

lemma aadGK_rh_longer:
  assumes "r \<noteq> []"
  shows "length (aadGK c e None) < length (aadGK c e (Some r))"
proof -
  let ?base = "[(''t'', json_string ''gk''), (''cid'', json_string c), (''s'', json_int 0), (''e'', json_int e)]"
  let ?seg = "'','' @ json_string ''rh'' @ '':'' @ json_string r"
  have "json_object (?base @ [(''rh'', json_string r)]) = butlast (json_object ?base) @ ?seg @ ''}''"
    using json_object_snoc [of ?base "''rh''" "json_string r"] by simp
  then have l1: "length (utf8 (json_object (?base @ [(''rh'', json_string r)])))
      = length (utf8 (butlast (json_object ?base))) + length (utf8 ?seg) + length (utf8 ''}'')"
    by (simp only: utf8_append length_append)
  have "json_object ?base = butlast (json_object ?base) @ ''}''"
    by (simp add: json_object_def butlast_append)
  then have "utf8 (json_object ?base) = utf8 (butlast (json_object ?base) @ ''}'')"
    by simp
  then have l2: "length (utf8 (json_object ?base))
      = length (utf8 (butlast (json_object ?base))) + length (utf8 ''}'')"
    by (simp only: utf8_append length_append)
  have l3: "1 \<le> length (utf8 ?seg)"
    using length_utf8 [of ?seg] by simp
  have a1: "length (aadGK c e (Some r)) = length (utf8 (json_object (?base @ [(''rh'', json_string r)])))"
    using assms by (simp add: aadGK_def)
  have a2: "length (aadGK c e None) = length (utf8 (json_object ?base))"
    by (simp add: aadGK_def)
  show ?thesis using a1 a2 l1 l2 l3 by linarith
qed

lemma aadGK_rh_differs: "r \<noteq> [] \<Longrightarrow> aadGK c e (Some r) \<noteq> aadGK c e None"
  using aadGK_rh_longer [of r c e] by auto

lemma aadGK_empty_rh: "aadGK c e (Some []) = aadGK c e None"
  by (simp add: aadGK_def)

lemma demo_tryDecrypt:
  "tryDecrypt demo_env ((demo_gk e JUndefined)\<lparr>gk_rh := x\<rparr>) demo_key e rh =
     (if of_nat (length (aadGK ''host'' e None)) = (of_nat (length (aadGK ''host'' e rh)) :: 8 word)
      then Some (replicate 32 9) else None)"
  by (simp add: tryDecrypt_def demo_gk_def demo_u8_seal demo_u8_str demo_decrypt demo_tag_def)

text \<open>
  C6 as stated fails on a frame whose \<^verbatim>\<open>rh\<close> is the empty string: it carries a string
  \<^verbatim>\<open>rh\<close>, and the AAD of the first attempt is the legacy AAD, under which the frame's key
  is accepted at once.
\<close>

theorem loadGK_empty_rh_counterexample:
  "typeof (gk_rh demo_empty_rh) = ''string''
   \<and> primary_aad demo_empty_rh 4 = aadGK (gk_cid demo_empty_rh) 4 None
   \<and> decryptGK demo_env demo_empty_rh demo_key 4 = ([Some ''''], Some (replicate 32 9))"
  by (simp add: demo_empty_rh_def primary_aad_def decryptGK_def demo_tryDecrypt aadGK_empty_rh)

text \<open>
  C6, as amended. In \<^verbatim>\<open>MlsGroup.loadGK\<close> the AAD of the first attempt has the
  \<^verbatim>\<open>rh\<close> segment (differs from the legacy AAD) if and only if the frame carries a
  non-empty string \<^verbatim>\<open>rh\<close>: \<^verbatim>\<open>_aadGK\<close> tests \<^verbatim>\<open>if (rh)\<close>. The attempts are: for a
  string \<^verbatim>\<open>rh\<close>, one with it and, when that one fails, exactly one more with the legacy
  AAD; for any other \<^verbatim>\<open>rh\<close>, one with the legacy AAD. The result is that of the last
  attempt, and when it fails the call returns with no event and the state unchanged.
\<close>

theorem loadGK_aad_and_retry:
  "((primary_aad msg theirE \<noteq> aadGK (gk_cid msg) theirE None) \<longleftrightarrow> (\<exists>r. gk_rh msg = JStr r \<and> r \<noteq> []))
   \<and> aadGK (gk_cid msg) theirE (hd (fst (decryptGK env msg mySk theirE))) = primary_aad msg theirE
   \<and> fst (decryptGK env msg mySk theirE) =
        (case gk_rh msg of
           JStr r \<Rightarrow> if tryDecrypt env msg mySk theirE (Some r) = None then [Some r, None] else [Some r]
         | _ \<Rightarrow> [None])
   \<and> snd (decryptGK env msg mySk theirE) = tryDecrypt env msg mySk theirE (last (fst (decryptGK env msg mySk theirE)))
   \<and> (snd (decryptGK env msg mySk (toInt32 (coerce_int32 env) (gk_e msg))) = None
        \<longrightarrow> loadGK env msg mySk g = Some ([], g))"
proof (intro conjI)
  show "(primary_aad msg theirE \<noteq> aadGK (gk_cid msg) theirE None) \<longleftrightarrow> (\<exists>r. gk_rh msg = JStr r \<and> r \<noteq> [])"
  proof (cases "gk_rh msg")
    case (JStr r)
    then show ?thesis
      using aadGK_rh_differs [of r "gk_cid msg" theirE] aadGK_empty_rh [of "gk_cid msg" theirE]
      by (cases "r = []") (simp_all add: primary_aad_def)
  qed (simp_all add: primary_aad_def)
next
  show "aadGK (gk_cid msg) theirE (hd (fst (decryptGK env msg mySk theirE))) = primary_aad msg theirE"
    by (simp add: decryptGK_def primary_aad_def split: jsval.splits option.splits)
next
  show "fst (decryptGK env msg mySk theirE) =
        (case gk_rh msg of
           JStr r \<Rightarrow> if tryDecrypt env msg mySk theirE (Some r) = None then [Some r, None] else [Some r]
         | _ \<Rightarrow> [None])"
    by (simp add: decryptGK_def split: jsval.splits option.splits)
next
  show "snd (decryptGK env msg mySk theirE) = tryDecrypt env msg mySk theirE (last (fst (decryptGK env msg mySk theirE)))"
    by (simp add: decryptGK_def split: jsval.splits option.splits)
next
  show "snd (decryptGK env msg mySk (toInt32 (coerce_int32 env) (gk_e msg))) = None
        \<longrightarrow> loadGK env msg mySk g = Some ([], g)"
    by (simp add: loadGK_def Let_def)
qed

theorem loadGK_aad_and_retry_witness:
  "fst (decryptGK demo_env demo_legacy_rh demo_key 4) = [Some ''abc'', None]
   \<and> snd (decryptGK demo_env demo_legacy_rh demo_key 4) = Some (replicate 32 9)
   \<and> primary_aad demo_legacy_rh 4 \<noteq> aadGK ''host'' 4 None
   \<and> loadGK demo_env demo_legacy_rh (replicate 32 1) demo_bob = Some ([], demo_bob)"
proof -
  have rh: "gk_rh demo_legacy_rh = JStr ''abc''" "gk_cid demo_legacy_rh = ''host''"
    by (simp_all add: demo_legacy_rh_def demo_gk_def)
  have e: "toInt32 (coerce_int32 demo_env) (gk_e demo_legacy_rh) = 4"
    by (simp add: demo_legacy_rh_def demo_gk_def wrap32_def)
  have t1: "tryDecrypt demo_env demo_legacy_rh demo_key 4 (Some ''abc'') = None"
    by code_simp
  have t2: "tryDecrypt demo_env demo_legacy_rh demo_key 4 None = Some (replicate 32 9)"
    by code_simp
  have t3: "snd (decryptGK demo_env demo_legacy_rh (replicate 32 1) 4) = None"
    by code_simp
  from loadGK_aad_and_retry [of demo_legacy_rh 4 demo_env demo_key demo_bob]
    loadGK_aad_and_retry [of demo_legacy_rh 4 demo_env "replicate 32 1" demo_bob]
  show ?thesis using rh e t1 t2 t3 by simp
qed

subsection \<open>C7: the time window of parseCapsule\<close>

lemma ttl_rejects_int:
  "ttl_rejects now iat (JNum (Fin (of_int e))) \<longleftrightarrow>
     \<not> (now \<le> e \<and> (\<forall>i. iat = JNum (Fin (of_int i)) \<longrightarrow> i \<le> now \<and> e - i \<le> 2 * CAPSULE_TTL_MS))"
  if "typeof iat = ''number'' \<longrightarrow> (\<exists>i. iat = JNum (Fin (of_int i)))"
proof (cases "typeof iat = ''number''")
  case True
  with that obtain i where i: "iat = JNum (Fin (of_int i))" by blast
  have "(of_int e - of_int i :: rat) = of_int (e - i)" by simp
  then have "(of_int (CAPSULE_TTL_MS * 2) < (of_int e - of_int i :: rat)) \<longleftrightarrow> CAPSULE_TTL_MS * 2 < e - i"
    by (simp only: of_int_less_iff)
  then show ?thesis by (auto simp: ttl_rejects_def i)
next
  case False
  then have "\<not> (\<exists>i. iat = JNum (Fin (of_int i)))" by auto
  with False show ?thesis by (cases iat) (auto simp: ttl_rejects_def)
qed

text \<open>
  C7. Take a capsule that decodes to at most 4096 bytes and parses to an object with a
  payload object, whose \<^verbatim>\<open>exp\<close> is an integer number, whose \<^verbatim>\<open>iat\<close> is an integer number
  or not a number at all, whose \<^verbatim>\<open>id\<close>, \<^verbatim>\<open>sig\<close>, \<^verbatim>\<open>x\<close> and \<^verbatim>\<open>k\<close> decode, and whose
  signature verifies over the transcript. For every time \<open>now\<close>, \<^verbatim>\<open>parseCapsule\<close> returns
  the invitation if \<open>now \<le> exp\<close> and, when \<^verbatim>\<open>iat\<close> is a number, also \<open>iat \<le> now\<close> and
  \<open>exp - iat \<le> 2 * TTL\<close>; otherwise it returns \<^verbatim>\<open>null\<close>. The TTL is 120 s.
\<close>

theorem parseCapsule_ttl:
  assumes b64: "from_base64 env (trim s) = Some bs"
      and size: "length bs \<le> MAX_CAPSULE_BYTES"
      and parse: "json_parse env (text_decode env bs) = Some (JObj kvs)"
      and payload: "js_prop (JObj kvs) ''payload'' = JObj pkvs"
      and ex: "js_prop (JObj pkvs) ''exp'' = JNum (Fin (of_int e))"
      and iat: "typeof (js_prop (JObj pkvs) ''iat'') = ''number''
                  \<longrightarrow> js_prop (JObj pkvs) ''iat'' = JNum (Fin (of_int i))"
      and ident: "u8 env (js_prop (JObj kvs) ''id'') = Some idb"
      and sg: "u8 env (js_prop (JObj kvs) ''sig'') = Some sgb"
      and signed: "crypto_sign_verify_detached env sgb (buildCapsuleTranscript env (JObj pkvs)) idb = Some True"
      and x: "u8 env (js_prop (JObj pkvs) ''x'') = Some xp"
      and k: "u8 env (js_prop (JObj pkvs) ''k'') = Some pqp"
  shows "parseCapsule env now (JStr s) =
     (if now \<le> e \<and> (typeof (js_prop (JObj pkvs) ''iat'') = ''number''
                        \<longrightarrow> i \<le> now \<and> e - i \<le> 2 * CAPSULE_TTL_MS)
      then Inr (Some \<lparr>inv_room = js_prop (JObj pkvs) ''room'',
                       inv_cid = js_prop (JObj pkvs) ''cid'',
                       inv_xPub = xp, inv_pqPub = pqp, inv_idPub = idb,
                       inv_ver = js_or (js_prop (JObj pkvs) ''v'') (JStr ''legacy''),
                       inv_alg = js_or (js_prop (JObj pkvs) ''alg'') (JStr ''legacy'')\<rparr>)
      else Inr None)
     \<and> CAPSULE_TTL_MS = 120 * 1000"
proof -
  let ?iat = "js_prop (JObj pkvs) ''iat''"
  let ?inv = "\<lparr>inv_room = js_prop (JObj pkvs) ''room'',
                       inv_cid = js_prop (JObj pkvs) ''cid'',
                       inv_xPub = xp, inv_pqPub = pqp, inv_idPub = idb,
                       inv_ver = js_or (js_prop (JObj pkvs) ''v'') (JStr ''legacy''),
                       inv_alg = js_or (js_prop (JObj pkvs) ''alg'') (JStr ''legacy'')\<rparr>"
  have v: "verify_and_decode env (JObj pkvs) (js_prop (JObj kvs) ''id'') (js_prop (JObj kvs) ''sig'')
      = Inr (Some ?inv)"
    using ident sg signed x k by (simp add: verify_and_decode_def Let_def del: js_prop.simps)
  have t: "ttl_rejects now ?iat (JNum (Fin (of_int e))) \<longleftrightarrow>
     \<not> (now \<le> e \<and> (typeof ?iat = ''number'' \<longrightarrow> i \<le> now \<and> e - i \<le> 2 * CAPSULE_TTL_MS))"
  proof (cases "typeof ?iat = ''number''")
    case True
    with iat have "?iat = JNum (Fin (of_int i))" by blast
    with True ttl_rejects_int [of ?iat now e] show ?thesis by auto
  next
    case False
    with ttl_rejects_int [of ?iat now e] show ?thesis by auto
  qed
  have c: "check_object env now (JObj kvs) =
      (if ttl_rejects now ?iat (JNum (Fin (of_int e))) then Inr None else Inr (Some ?inv))"
    using payload ex v by (simp add: check_object_def Let_def del: js_prop.simps)
  have "parseCapsule env now (JStr s) = check_object env now (JObj kvs)"
    using b64 size parse c by (simp add: parseCapsule_def parseCapsule_try_def split: if_splits)
  with c t show ?thesis by (simp add: CAPSULE_TTL_MS_def)
qed

theorem parseCapsule_ttl_witness:
  "parseCapsule demo_capsule_env 1500 (JStr '' capsule '') =
      Inr (Some \<lparr>inv_room = JStr ''r1'', inv_cid = JStr ''host'', inv_xPub = map of_char ''x'',
                 inv_pqPub = map of_char ''k'', inv_idPub = map of_char ''id'',
                 inv_ver = JStr ''NT-C1'', inv_alg = JStr ''legacy''\<rparr>)
   \<and> parseCapsule demo_capsule_env 200000 (JStr '' capsule '') = Inr None
   \<and> parseCapsule demo_capsule_env 500 (JStr '' capsule '') = Inr None"
proof -
  let ?pk = "[(''v'', JStr ''NT-C1''), (''room'', JStr ''r1''), (''cid'', JStr ''host''),
           (''x'', JStr ''x''), (''k'', JStr ''k''),
           (''iat'', JNum (Fin 1000)), (''exp'', JNum (Fin 121000))]"
  let ?sig = "replicate 64 (sum_list (buildCapsuleTranscript demo_env demo_payload) + sum_list (map of_char ''id'')) :: bytes"
  let ?kv = "[(''payload'', demo_payload), (''id'', JStr ''id''),
              (''sig'', JStr (map (\<lambda>b. char_of (unat b)) ?sig))]"
  have tr: "trim '' capsule '' = ''capsule''"
    by (simp add: trim_def is_space_def)
  have b64: "from_base64 demo_capsule_env (trim '' capsule '') = Some (map of_char ''capsule'')"
    unfolding tr by (simp add: demo_capsule_env_def demo_env_def)
  have size: "length (map of_char ''capsule'' :: bytes) \<le> MAX_CAPSULE_BYTES"
    by (simp add: MAX_CAPSULE_BYTES_def)
  have td: "text_decode demo_capsule_env (map of_char ''capsule'') = ''capsule''"
    using demo_text_decode [of "''capsule''"] by (simp add: demo_capsule_env_def)
  have parse: "json_parse demo_capsule_env (text_decode demo_capsule_env (map of_char ''capsule'')) = Some (JObj ?kv)"
    unfolding td by (simp add: demo_capsule_env_def demo_capsule_def)
  have payload: "js_prop (JObj ?kv) ''payload'' = JObj ?pk"
    by (simp add: demo_payload_def)
  have ex: "js_prop (JObj ?pk) ''exp'' = JNum (Fin (of_int 121000))" by simp
  have iat: "typeof (js_prop (JObj ?pk) ''iat'') = ''number''
                  \<longrightarrow> js_prop (JObj ?pk) ''iat'' = JNum (Fin (of_int 1000))" by simp
  have ident: "u8 demo_capsule_env (js_prop (JObj ?kv) ''id'') = Some (map of_char ''id'')"
    by (simp add: demo_capsule_env_def demo_env_def)
  have sg: "u8 demo_capsule_env (js_prop (JObj ?kv) ''sig'') = Some ?sig"
    by (simp add: demo_capsule_env_def demo_env_def word_of_char_of comp_def)
  have signed: "crypto_sign_verify_detached demo_capsule_env ?sig
        (buildCapsuleTranscript demo_capsule_env (JObj ?pk)) (map of_char ''id'') = Some True"
    unfolding demo_capsule_env_def buildCapsuleTranscript_json_parse_upd
    by (simp add: demo_env_def demo_payload_def)
  have x: "u8 demo_capsule_env (js_prop (JObj ?pk) ''x'') = Some (map of_char ''x'')"
    by (simp add: demo_capsule_env_def demo_env_def)
  have k: "u8 demo_capsule_env (js_prop (JObj ?pk) ''k'') = Some (map of_char ''k'')"
    by (simp add: demo_capsule_env_def demo_env_def)
  note t = parseCapsule_ttl [OF b64 size parse payload ex iat ident sg signed x k]
  have ttl: "CAPSULE_TTL_MS = 120000" by (simp add: CAPSULE_TTL_MS_def)
  from t [of 1500] t [of 200000] t [of 500]
  show ?thesis by (simp add: ttl js_or_def)
qed

subsection \<open>C8: Group.encrypt\<close>

lemma demo_loads_short_key:
  "loadGK demo_env demo_short_gk demo_key demo_bob = Some ([Ready], install [9] 4 demo_bob)"
proof -
  have p: "pending (install [9] 4 demo_bob) = []"
    by (simp add: install_def demo_bob_def MlsGroup_new_def Group_new_def group.defs)
  have t: "tryDecrypt demo_env demo_short_gk demo_key 4 None = Some [9]"
    by (simp add: tryDecrypt_def demo_short_gk_def demo_gk_def demo_u8_seal demo_u8_str demo_decrypt)
  show ?thesis
    using flush_no_pending [OF p, of demo_env] t
    by (simp add: loadGK_def decryptGK_def addressed_elsewhere_def demo_short_gk_def demo_gk_def
        demo_bob_def MlsGroup_new_def Group_new_def group.defs wrap32_def)
qed

text \<open>
  C8 as stated fails, in two ways. \<^verbatim>\<open>MlsGroup.loadGK\<close> installs whatever the sealed box
  of a \<^verbatim>\<open>gk\<close> frame holds: after the frame \<open>demo_short_gk\<close>, \<^verbatim>\<open>groupKey\<close> is present
  and has one byte, the AEAD refuses it as libsodium does every key that has not 32
  bytes, and \<^verbatim>\<open>encrypt\<close> throws instead of returning a frame. And with \<^verbatim>\<open>sendSeq\<close> at
  \<open>2^53\<close> the sum \<^verbatim>\<open>s + 1\<close> is rounded back to \<open>2^53\<close>: a frame with that sequence is
  returned and \<^verbatim>\<open>sendSeq\<close> is what it was.
\<close>

theorem encrypt_throws_or_stalls:
  "loadGK demo_env demo_short_gk demo_key demo_bob = Some ([Ready], install [9] 4 demo_bob)
   \<and> groupKey (install [9] 4 demo_bob) = Some [9]
   \<and> encrypt demo_env ''hi'' (install [9] 4 demo_bob) = (Inl SodiumError, install [9] 4 demo_bob)
   \<and> groupKey (demo_keyed\<lparr>sendSeq := 2 ^ 53\<rparr>) = Some demo_group_key
   \<and> map_option (\<lambda>f. js_prop f ''s'') (projr (fst (encrypt demo_env ''hi'' (demo_keyed\<lparr>sendSeq := 2 ^ 53\<rparr>))))
       = Some (JNum (Fin (2 ^ 53)))
   \<and> sendSeq (snd (encrypt demo_env ''hi'' (demo_keyed\<lparr>sendSeq := 2 ^ 53\<rparr>))) = 2 ^ 53"
proof -
  have short: "encrypt demo_env ''hi'' (install [9] 4 demo_bob) = (Inl SodiumError, install [9] 4 demo_bob)"
    by (simp add: encrypt_def install_def nonce_JStr Let_def demo_env_def)
  have rs: "round_double 9007199254740993 = 9007199254740992"
    using round_double_stalls by simp
  have stall: "encrypt demo_env ''hi'' (demo_keyed\<lparr>sendSeq := 2 ^ 53\<rparr>) =
      (Inr (Some (JObj [(''t'', JStr ''m''), (''cid'', JStr ''bob''),
                        (''s'', JNum (Fin (2 ^ 53))), (''e'', JNum (Fin 1)),
                        (''n'', JStr (b64 (crypto_generichash demo_env 24
                            (utf8 ''NT-v1|nonce|'' @ utf8 (''bob'' @ ''|'' @ json_int (2 ^ 53) @ ''|'' @ json_int 1)) None))),
                        (''c'', JStr (b64 (utf8 ''hi'' @
                            [demo_tag (aad demo_env ''m'' (JStr ''bob'') (2 ^ 53) 1)
                               (crypto_generichash demo_env 24
                                  (utf8 ''NT-v1|nonce|'' @ utf8 (''bob'' @ ''|'' @ json_int (2 ^ 53) @ ''|'' @ json_int 1)) None)
                               demo_group_key])))])),
       demo_keyed\<lparr>sendSeq := 2 ^ 53\<rparr>)"
    by (simp add: encrypt_def nonce_JStr Let_def demo_keyed_def Group_new_def demo_group_key_def
        rs demo_env_def demo_hash_def)
  from demo_loads_short_key short show ?thesis
    unfolding stall by (simp add: install_def demo_keyed_def)
qed

text \<open>
  C8, as amended. \<^verbatim>\<open>Group.encrypt\<close>. Without a group key it returns \<^verbatim>\<open>null\<close> and the
  state is unchanged. With a group key of 32 bytes, and libsodium keeping its contract
  (the hash has the length asked for, the AEAD takes a 24-byte nonce and a 32-byte key),
  it returns the frame \<^verbatim>\<open>{t:"m", cid, s, e, n, c}\<close> with \<open>s\<close> the \<^verbatim>\<open>sendSeq\<close> and \<open>e\<close> the
  epoch before the call, \<open>n\<close> the base64 of the nonce, which is the 24-byte hash of
  \<^verbatim>\<open>NT-v1|nonce|\<close> followed by \<^verbatim>\<open>cid|s|e\<close>, and \<open>c\<close> the base64 of the AEAD ciphertext
  of the text under that nonce, the group key and the AAD \<^verbatim>\<open>{t, cid, s, e}\<close>. Afterwards
  \<^verbatim>\<open>sendSeq\<close> is the rounded sum \<^verbatim>\<open>s + 1\<close>, which is one more than before when
  \<^verbatim>\<open>sendSeq\<close> was below \<open>2^53\<close>; nothing else of the state changes.
\<close>

theorem encrypt_effect:
  assumes nc: "nc = crypto_generichash env 24
                 (utf8 ''NT-v1|nonce|'' @ utf8 (cid g @ ''|'' @ json_int (sendSeq g) @ ''|'' @ json_int (epoch g)))
                 None"
      and ad: "ad = utf8 (stringify env (JObj [(''t'', JStr ''m''), (''cid'', JStr (cid g)),
                 (''s'', JNum (Fin (of_int (sendSeq g)))), (''e'', JNum (Fin (of_int (epoch g))))]))"
  shows "(groupKey g = None \<longrightarrow> encrypt env txt g = (Inr None, g))
     \<and> (\<forall>key. groupKey g = Some key \<and> length key = 32 \<and> aead_accepts env \<and> hash_length env \<longrightarrow>
          (\<exists>cipher.
             aead_encrypt env (utf8 txt) ad nc key = Some cipher
             \<and> encrypt env txt g =
                 (Inr (Some (JObj [(''t'', JStr ''m''), (''cid'', JStr (cid g)),
                                   (''s'', JNum (Fin (of_int (sendSeq g)))),
                                   (''e'', JNum (Fin (of_int (epoch g)))),
                                   (''n'', JStr (b64 nc)), (''c'', JStr (b64 cipher))])),
                  g\<lparr>sendSeq := round_double (sendSeq g + 1)\<rparr>)
             \<and> (\<bar>sendSeq g\<bar> < 2 ^ 53 \<longrightarrow> round_double (sendSeq g + 1) = sendSeq g + 1)))"
proof (intro conjI allI impI)
  assume "groupKey g = None"
  then show "encrypt env txt g = (Inr None, g)" by (simp add: encrypt_def)
next
  fix key
  assume h: "groupKey g = Some key \<and> length key = 32 \<and> aead_accepts env \<and> hash_length env"
  then have "length nc = NPUBBYTES" by (simp add: nc hash_length_def NPUBBYTES_def)
  with h obtain cipher where c: "aead_encrypt env (utf8 txt) ad nc key = Some cipher"
    unfolding aead_accepts_def by (meson option.exhaust)
  have n: "nonce env (JStr (cid g)) (sendSeq g) (epoch g) = Some nc"
    by (simp only: nonce_JStr nc)
  have a: "aad env ''m'' (JStr (cid g)) (sendSeq g) (epoch g) = ad"
    by (simp only: aad_def ad)
  have e: "encrypt env txt g =
      (Inr (Some (JObj [(''t'', JStr ''m''), (''cid'', JStr (cid g)),
                        (''s'', JNum (Fin (of_int (sendSeq g)))),
                        (''e'', JNum (Fin (of_int (epoch g)))),
                        (''n'', JStr (b64 nc)), (''c'', JStr (b64 cipher))])),
       g\<lparr>sendSeq := round_double (sendSeq g + 1)\<rparr>)"
    using h c by (simp add: encrypt_def Let_def n a)
  have r: "\<bar>sendSeq g\<bar> < 2 ^ 53 \<longrightarrow> round_double (sendSeq g + 1) = sendSeq g + 1"
    using round_double_succ by blast
  from c e r
  show "\<exists>cipher.
      aead_encrypt env (utf8 txt) ad nc key = Some cipher
      \<and> encrypt env txt g =
          (Inr (Some (JObj [(''t'', JStr ''m''), (''cid'', JStr (cid g)),
                            (''s'', JNum (Fin (of_int (sendSeq g)))),
                            (''e'', JNum (Fin (of_int (epoch g)))),
                            (''n'', JStr (b64 nc)), (''c'', JStr (b64 cipher))])),
           g\<lparr>sendSeq := round_double (sendSeq g + 1)\<rparr>)
      \<and> (\<bar>sendSeq g\<bar> < 2 ^ 53 \<longrightarrow> round_double (sendSeq g + 1) = sendSeq g + 1)"
    by blast
qed

theorem encrypt_effect_witness:
  "encrypt demo_env ''hi'' (Group_new ''bob'') = (Inr None, Group_new ''bob'')
   \<and> (\<exists>cipher.
        aead_encrypt demo_env (utf8 ''hi'')
            (utf8 (stringify demo_env (JObj [(''t'', JStr ''m''), (''cid'', JStr ''bob''),
                 (''s'', JNum (Fin 0)), (''e'', JNum (Fin 1))])))
            (crypto_generichash demo_env 24
                 (utf8 ''NT-v1|nonce|'' @ utf8 (''bob'' @ ''|'' @ json_int 0 @ ''|'' @ json_int 1)) None)
            demo_group_key = Some cipher
        \<and> encrypt demo_env ''hi'' demo_keyed =
            (Inr (Some (JObj [(''t'', JStr ''m''), (''cid'', JStr ''bob''),
                              (''s'', JNum (Fin 0)), (''e'', JNum (Fin 1)),
                              (''n'', JStr (b64 (crypto_generichash demo_env 24
                                  (utf8 ''NT-v1|nonce|'' @ utf8 (''bob'' @ ''|'' @ json_int 0 @ ''|'' @ json_int 1)) None))),
                              (''c'', JStr (b64 cipher))])),
             demo_keyed\<lparr>sendSeq := 1\<rparr>))"
proof -
  have f: "cid demo_keyed = ''bob''" "sendSeq demo_keyed = 0" "epoch demo_keyed = 1"
    "groupKey demo_keyed = Some demo_group_key" "groupKey (Group_new ''bob'') = None"
    by (simp_all add: demo_keyed_def Group_new_def)
  have k: "length demo_group_key = 32" by (simp add: demo_group_key_def)
  from encrypt_effect [OF refl refl, of "Group_new ''bob''" demo_env "''hi''"] f(5)
  have none: "encrypt demo_env ''hi'' (Group_new ''bob'') = (Inr None, Group_new ''bob'')"
    by blast
  from encrypt_effect [OF refl refl, of demo_keyed demo_env "''hi''"] f(4) k demo_contracts
  obtain cipher where
    c: "aead_encrypt demo_env (utf8 ''hi'')
          (utf8 (stringify demo_env (JObj [(''t'', JStr ''m''), (''cid'', JStr (cid demo_keyed)),
             (''s'', JNum (Fin (of_int (sendSeq demo_keyed)))), (''e'', JNum (Fin (of_int (epoch demo_keyed))))])))
          (crypto_generichash demo_env 24
             (utf8 ''NT-v1|nonce|'' @ utf8 (cid demo_keyed @ ''|'' @ json_int (sendSeq demo_keyed) @ ''|'' @ json_int (epoch demo_keyed))) None)
          demo_group_key = Some cipher"
    and e: "encrypt demo_env ''hi'' demo_keyed =
          (Inr (Some (JObj [(''t'', JStr ''m''), (''cid'', JStr (cid demo_keyed)),
                            (''s'', JNum (Fin (of_int (sendSeq demo_keyed)))),
                            (''e'', JNum (Fin (of_int (epoch demo_keyed)))),
                            (''n'', JStr (b64 (crypto_generichash demo_env 24
                               (utf8 ''NT-v1|nonce|'' @ utf8 (cid demo_keyed @ ''|'' @ json_int (sendSeq demo_keyed) @ ''|'' @ json_int (epoch demo_keyed))) None))),
                            (''c'', JStr (b64 cipher))])),
           demo_keyed\<lparr>sendSeq := round_double (sendSeq demo_keyed + 1)\<rparr>)"
    by blast
  have r: "round_double (sendSeq demo_keyed + 1) = 1"
    using round_double_succ [of 0] by (simp add: f)
  from c e have "aead_encrypt demo_env (utf8 ''hi'')
            (utf8 (stringify demo_env (JObj [(''t'', JStr ''m''), (''cid'', JStr ''bob''),
                 (''s'', JNum (Fin 0)), (''e'', JNum (Fin 1))])))
            (crypto_generichash demo_env 24
                 (utf8 ''NT-v1|nonce|'' @ utf8 (''bob'' @ ''|'' @ json_int 0 @ ''|'' @ json_int 1)) None)
            demo_group_key = Some cipher
        \<and> encrypt demo_env ''hi'' demo_keyed =
            (Inr (Some (JObj [(''t'', JStr ''m''), (''cid'', JStr ''bob''),
                              (''s'', JNum (Fin 0)), (''e'', JNum (Fin 1)),
                              (''n'', JStr (b64 (crypto_generichash demo_env 24
                                  (utf8 ''NT-v1|nonce|'' @ utf8 (''bob'' @ ''|'' @ json_int 0 @ ''|'' @ json_int 1)) None))),
                              (''c'', JStr (b64 cipher))])),
             demo_keyed\<lparr>sendSeq := 1\<rparr>)"
    unfolding r unfolding f by simp
  with none show ?thesis by blast
qed

subsection \<open>C9: Group.loadGK\<close>

text \<open>
  C9. The base class \<^verbatim>\<open>Group.loadGK\<close> compares no epochs. For every state and every
  \<^verbatim>\<open>gk\<close> frame addressed to this member whose \<^verbatim>\<open>ek\<close> decrypts under the pair key, the
  call returns after one ready event, with the decrypted key installed, the epoch set to
  the frame's \<^verbatim>\<open>e | 0\<close> and \<^verbatim>\<open>sendSeq\<close> at 0, whatever the epoch was before. The state
  is the one \<^verbatim>\<open>flush\<close> reaches from the install with \<^verbatim>\<open>recvSeq\<close> emptied: an entry of
  \<^verbatim>\<open>recvSeq\<close> afterwards is the sequence of a frame that was pending, and with nothing
  pending \<^verbatim>\<open>recvSeq\<close> is empty. The example after it moves the epoch from 5 back to 2.
\<close>

theorem Group_loadGK_installs:
  assumes self: "\<not> addressed_elsewhere msg g"
      and ek: "u8 env (gk_ek msg) = Some ek"
      and n: "u8 env (gk_n msg) = Some n"
      and dec: "aead_decrypt env ek (aad env ''gk'' (JStr (gk_cid msg)) 0 (toInt32 (coerce_int32 env) (gk_e msg))) n mySk = Some gk"
  shows "\<exists>txts g'.
      Group_loadGK env msg mySk g = Some ([Ready], g')
      \<and> flush env (install gk (toInt32 (coerce_int32 env) (gk_e msg)) g) = Some (txts, g')
      \<and> groupKey g' = Some gk
      \<and> epoch g' = toInt32 (coerce_int32 env) (gk_e msg)
      \<and> sendSeq g' = 0
      \<and> (\<forall>c s. recvSeq g' c = Some s \<longrightarrow>
            (\<exists>m \<in> set (pending g). cid_key m = c \<and> toInt32 (coerce_int32 env) (m_s m) = s))
      \<and> (pending g = [] \<longrightarrow> g' = install gk (toInt32 (coerce_int32 env) (gk_e msg)) g)"
proof -
  let ?e = "toInt32 (coerce_int32 env) (gk_e msg)"
  let ?g1 = "install gk ?e g"
  from flush_returns [of env ?g1]
  obtain txts g' where f: "flush env ?g1 = Some (txts, g')"
    and k: "groupKey g' = groupKey ?g1" "epoch g' = epoch ?g1" "sendSeq g' = sendSeq ?g1"
    and src: "\<forall>c s. recvSeq g' c = Some s \<longrightarrow> recvSeq ?g1 c = Some s \<or>
          (\<exists>m \<in> set (pending ?g1). cid_key m = c \<and> toInt32 (coerce_int32 env) (m_s m) = s)"
    by blast
  have l: "Group_loadGK env msg mySk g = Some ([Ready], g')"
    using self ek n dec f by (simp add: Group_loadGK_def Let_def)
  have p: "pending g = [] \<longrightarrow> g' = ?g1"
    using f flush_no_pending [of ?g1 env] by (simp add: install_def)
  from l f k src p show ?thesis by (simp add: install_def)
qed

theorem Group_loadGK_installs_witness:
  "Group_loadGK demo_env (demo_gk 2 JUndefined) demo_key demo_old
     = Some ([Ready], install (replicate 32 9) 2 demo_old)
   \<and> epoch (install (replicate 32 9) 2 demo_old) = 2 \<and> epoch demo_old = 5
   \<and> recvSeq (install (replicate 32 9) 2 demo_old) = Map.empty"
proof -
  have e: "toInt32 (coerce_int32 demo_env) (gk_e (demo_gk 2 JUndefined)) = 2"
    by (simp add: demo_gk_def wrap32_def)
  have self: "\<not> addressed_elsewhere (demo_gk 2 JUndefined) demo_old"
    by (simp add: addressed_elsewhere_def demo_gk_def demo_old_def Group_new_def)
  have ek: "u8 demo_env (gk_ek (demo_gk 2 JUndefined))
      = Some (replicate 32 9 @ [demo_tag (aadGK ''host'' 2 None) (map of_char ''n'') demo_key])"
    by (simp add: demo_gk_def demo_u8_seal)
  have n: "u8 demo_env (gk_n (demo_gk 2 JUndefined)) = Some (map of_char ''n'')"
    by (simp add: demo_gk_def demo_u8_str)
  have a: "aad demo_env ''gk'' (JStr (gk_cid (demo_gk 2 JUndefined))) 0 2 = aadGK ''host'' 2 None"
    by (simp add: aad_JStr aadGK_def demo_gk_def)
  have dec: "aead_decrypt demo_env (replicate 32 9 @ [demo_tag (aadGK ''host'' 2 None) (map of_char ''n'') demo_key])
      (aad demo_env ''gk'' (JStr (gk_cid (demo_gk 2 JUndefined))) 0 (toInt32 (coerce_int32 demo_env) (gk_e (demo_gk 2 JUndefined))))
      (map of_char ''n'') demo_key = Some (replicate 32 9)"
    unfolding e a by (rule demo_open)
  have p: "pending demo_old = []" by (simp add: demo_old_def Group_new_def)
  from Group_loadGK_installs [OF self ek n dec] p e
  show ?thesis by (auto simp: install_def demo_old_def)
qed

subsection \<open>C10: parseCapsule never throws\<close>

text \<open>
  C10. \<^verbatim>\<open>parseCapsule\<close> returns on every input value, at every time and for every
  behaviour of the decoding, parsing and verification primitives: an exception raised
  inside the \<^verbatim>\<open>try\<close> block becomes \<^verbatim>\<open>null\<close>, and so does an input that is not a string.
\<close>

theorem parseCapsule_never_throws:
  "(\<exists>res. parseCapsule env now str = Inr res)
   \<and> ((\<exists>err. parseCapsule_try env now str = Inl err) \<longrightarrow> parseCapsule env now str = Inr None)
   \<and> (typeof str \<noteq> ''string'' \<longrightarrow> parseCapsule env now str = Inr None)"
proof (intro conjI impI)
  show "\<exists>res. parseCapsule env now str = Inr res"
    by (cases "parseCapsule_try env now str") (simp_all add: parseCapsule_def)
next
  assume "\<exists>err. parseCapsule_try env now str = Inl err"
  then show "parseCapsule env now str = Inr None" by (auto simp: parseCapsule_def)
next
  assume "typeof str \<noteq> ''string''"
  then show "parseCapsule env now str = Inr None"
    by (cases str) (simp_all add: parseCapsule_def parseCapsule_try_def)
qed

theorem parseCapsule_never_throws_witness:
  "parseCapsule_try demo_env 0 (JStr ''not json'') = Inl SyntaxError
   \<and> parseCapsule demo_env 0 (JStr ''not json'') = Inr None
   \<and> parseCapsule demo_env 0 (JNum (Fin 7)) = Inr None"
proof -
  have t: "parseCapsule_try demo_env 0 (JStr ''not json'') = Inl SyntaxError"
    by (simp add: parseCapsule_try_def demo_env_def MAX_CAPSULE_BYTES_def trim_def is_space_def)
  have n: "typeof (JNum (Fin 7)) \<noteq> ''string''" by simp
  from parseCapsule_never_throws [of demo_env 0 "JStr ''not json''"]
    parseCapsule_never_throws [of demo_env 0 "JNum (Fin 7)"] t n
  show ?thesis by auto
qed

end
